theory Spec2Isabelle
  imports Complex_Main
begin

section \<open>Python values, exceptions and dictionaries\<close>

text \<open>
  Exceptions the three modules can raise are values of \<open>pyerr\<close>; a function that can
  raise returns \<open>pyerr + 'a\<close> with \<open>Inl\<close> for the exception. \<open>RecursionError\<close> is what
  Python raises when the interpreter's recursion limit is exceeded; the recursion limit
  is the \<open>nat\<close> argument of the functions that recurse along the schema.
  \<open>SchemaSyntaxError\<close> is the failure that the specification names for a malformed line:
  the sources define no class of that name and no \<open>raise\<close> statement, so no function
  below returns it.
\<close>

datatype pyerr = KeyError | AttributeError | TypeError | ValueError | IndexError
  | RecursionError | IOError | SchemaSyntaxError

text \<open>
  A document value. \<open>PDict\<close> is a plain \<open>dict\<close> (what \<open>json.loads\<close> gives for an
  object), \<open>POrderedDict\<close> a \<open>collections.OrderedDict\<close> (what the generator builds):
  the validator tells them apart by \<open>type(x) != dict\<close>. Both are association lists in
  insertion order. \<open>100.5\<close> and \<open>50.25\<close> are exactly representable, so a float is kept
  as the rational it denotes; only its type tag is ever inspected.
\<close>

datatype pyval = PNone | PBool bool | PInt int | PFloat rat | PStr string
  | PList "pyval list"
  | PDict "(string \<times> pyval) list"
  | POrderedDict "(string \<times> pyval) list"

text \<open>\<open>type(x).__name__\<close>\<close>

fun type_name :: "pyval \<Rightarrow> string" where
  "type_name PNone = ''NoneType''"
| "type_name (PBool b) = ''bool''"
| "type_name (PInt i) = ''int''"
| "type_name (PFloat r) = ''float''"
| "type_name (PStr s) = ''str''"
| "type_name (PList xs) = ''list''"
| "type_name (PDict d) = ''dict''"
| "type_name (POrderedDict d) = ''OrderedDict''"

text \<open>\<open>d[k] = v\<close>: an existing key keeps its position, a new key goes last.\<close>

fun dict_set :: "('k \<times> 'v) list \<Rightarrow> 'k \<Rightarrow> 'v \<Rightarrow> ('k \<times> 'v) list" where
  "dict_set [] k v = [(k, v)]"
| "dict_set (p # d) k v = (if fst p = k then (k, v) # d else p # dict_set d k v)"

text \<open>\<open>k in d\<close>\<close>

definition dict_has :: "('k \<times> 'v) list \<Rightarrow> 'k \<Rightarrow> bool" where
  "dict_has d k = (map_of d k \<noteq> None)"

text \<open>\<open>del d[k]\<close> for a key that is present.\<close>

definition dict_del :: "('k \<times> 'v) list \<Rightarrow> 'k \<Rightarrow> ('k \<times> 'v) list" where
  "dict_del d k = filter (\<lambda>p. fst p \<noteq> k) d"

text \<open>\<open>d.update(other)\<close>\<close>

definition dict_update :: "('k \<times> 'v) list \<Rightarrow> ('k \<times> 'v) list \<Rightarrow> ('k \<times> 'v) list" where
  "dict_update d other = foldl (\<lambda>acc p. dict_set acc (fst p) (snd p)) d other"

section \<open>Strings and the regular expressions of the parser\<close>

definition startswith :: "string \<Rightarrow> string \<Rightarrow> bool" where
  "startswith s p = (take (length p) s = p)"

definition endswith :: "string \<Rightarrow> string \<Rightarrow> bool" where
  "endswith s p = (length p \<le> length s \<and> drop (length s - length p) s = p)"

text \<open>
  The sources are read as Python 3 programs, where a string is a sequence of Unicode
  code points and a file opened with mode \<open>'r'\<close> yields decoded text. A character of
  the model is a code point below U+0100, the 256 values of \<open>char\<close>: \<open>CHR 0xE9\<close> is
  the letter U+00E9, not a byte of an encoding. Text with a code point from U+0100 on is not
  represented. On the code points that are represented, the character classes below are
  those of Python 3.

  \<open>str.strip()\<close> removes the characters for which \<open>str.isspace\<close> holds: below U+0100
  these are U+0009 to U+000D, U+001C to U+001F, the space, U+0085 and U+00A0.
\<close>

definition is_space :: "char \<Rightarrow> bool" where
  "is_space c = (c \<in> set [CHR 0x09, CHR 0x0A, CHR 0x0B, CHR 0x0C, CHR 0x0D,
     CHR 0x1C, CHR 0x1D, CHR 0x1E, CHR 0x1F, CHR '' '', CHR 0x85, CHR 0xA0])"

definition strip :: "string \<Rightarrow> string" where
  "strip s = rev (dropWhile is_space (rev (dropWhile is_space s)))"

text \<open>
  \<open>s.split('.', 1)\<close> unpacked into two names: \<open>ValueError\<close> when there is no dot.
\<close>

definition split_dot :: "string \<Rightarrow> pyerr + (string \<times> string)" where
  "split_dot s = (if CHR ''.'' \<in> set s
     then Inr (takeWhile (\<lambda>c. c \<noteq> CHR ''.'') s, drop 1 (dropWhile (\<lambda>c. c \<noteq> CHR ''.'') s))
     else Inl ValueError)"

text \<open>
  The fragment of Python's \<open>re\<close> syntax that the sources use: literals, one character of
  a class, a greedy \<open>+\<close> over a class, a greedy optional group, a named group, and
  sequencing. The patterns are \<open>str\<close> patterns without flags, so the classes are the
  Unicode ones. \<open>\w\<close> is the underscore and every alphanumeric character
  (\<open>str.isalnum\<close>): below U+0100 these are the ASCII letters and digits, the letters
  U+00AA, U+00B5, U+00BA, U+00C0 to U+00D6, U+00D8 to U+00F6 and U+00F8 to U+00FF, and
  the numeric characters U+00B2, U+00B3, U+00B9, U+00BC, U+00BD and U+00BE. \<open>\d\<close> is
  every decimal digit (category Nd): below U+0100 these are \<open>0\<close> to \<open>9\<close> only. The dot
  is every character but the line feed.
\<close>

datatype cclass = AnyChar | WordChar | DigitChar | WordOrDot

datatype rx = Eps | Lit string | One cclass | Plus cclass | Opt rx | Group string rx
  | Seq rx rx

definition is_word :: "char \<Rightarrow> bool" where
  "is_word c =
     (c \<in> set ''abcdefghijklmnopqrstuvwxyzABCDEFGHIJKLMNOPQRSTUVWXYZ0123456789_'' \<or>
      c \<in> set [CHR 0xAA, CHR 0xB2, CHR 0xB3, CHR 0xB5, CHR 0xB9, CHR 0xBA, CHR 0xBC, CHR 0xBD,
                CHR 0xBE] \<or>
      (0xC0 \<le> (of_char c :: nat) \<and> c \<noteq> CHR 0xD7 \<and> c \<noteq> CHR 0xF7))"

definition is_digit :: "char \<Rightarrow> bool" where
  "is_digit c = (c \<in> set ''0123456789'')"

fun in_class :: "cclass \<Rightarrow> char \<Rightarrow> bool" where
  "in_class AnyChar c = (c \<noteq> CHR 0x0A)"
| "in_class WordChar c = is_word c"
| "in_class DigitChar c = is_digit c"
| "in_class WordOrDot c = (is_word c \<or> c = CHR ''.'')"

text \<open>
  Backtracking matching with a continuation for the rest of the pattern: a greedy
  construct tries its longest alternative first and gives way only when the
  continuation fails, which is the order in which \<open>re\<close> explores matches.
\<close>

fun match_star :: "(char \<Rightarrow> bool) \<Rightarrow> string \<Rightarrow> (string \<Rightarrow> 'a option) \<Rightarrow> 'a option" where
  "match_star P [] k = k []"
| "match_star P (c # cs) k =
     (if P c then (case match_star P cs k of Some r \<Rightarrow> Some r | None \<Rightarrow> k (c # cs))
      else k (c # cs))"

type_synonym groups = "(string \<times> string) list"

fun match_rx :: "rx \<Rightarrow> string \<Rightarrow> groups \<Rightarrow> (string \<Rightarrow> groups \<Rightarrow> groups option) \<Rightarrow> groups option"
where
  "match_rx Eps s g k = k s g"
| "match_rx (Lit l) s g k = (if startswith s l then k (drop (length l) s) g else None)"
| "match_rx (One c) s g k =
     (case s of [] \<Rightarrow> None | x # xs \<Rightarrow> if in_class c x then k xs g else None)"
| "match_rx (Plus c) s g k =
     (case s of [] \<Rightarrow> None
      | x # xs \<Rightarrow> if in_class c x then match_star (in_class c) xs (\<lambda>s'. k s' g) else None)"
| "match_rx (Opt r) s g k =
     (case match_rx r s g k of Some res \<Rightarrow> Some res | None \<Rightarrow> k s g)"
| "match_rx (Group n r) s g k =
     match_rx r s g (\<lambda>s' g'. k s' (dict_set g' n (take (length s - length s') s)))"
| "match_rx (Seq r1 r2) s g k = match_rx r1 s g (\<lambda>s' g'. match_rx r2 s' g' k)"

text \<open>\<open>re.match(pattern, s)\<close>: anchored at the start only; the result is the \<open>groupdict()\<close>.\<close>

definition re_match :: "rx \<Rightarrow> string \<Rightarrow> groups option" where
  "re_match r s = match_rx r s [] (\<lambda>s' g. Some g)"

definition seq :: "rx list \<Rightarrow> rx" where
  "seq rs = foldr Seq rs Eps"

text \<open>\<open>re.match(...).groupdict()[n]\<close>: \<open>None\<close> has no \<open>groupdict\<close>.\<close>

definition match_group :: "rx \<Rightarrow> string \<Rightarrow> string \<Rightarrow> pyerr + string" where
  "match_group r s n = (case re_match r s of None \<Rightarrow> Inl AttributeError
     | Some g \<Rightarrow> (case map_of g n of None \<Rightarrow> Inl KeyError | Some v \<Rightarrow> Inr v))"

text \<open>\<^verbatim>\<open>option go_package = \"(?P<package>.+)\";\<close>\<close>
definition rx_go_package :: rx where
  "rx_go_package = seq [Lit ''option go_package = \"'', Group ''package'' (Plus AnyChar), Lit ''\";'']"

text \<open>\<^verbatim>\<open>package (?P<name>\w+);\<close>\<close>
definition rx_package :: rx where
  "rx_package = seq [Lit ''package '', Group ''name'' (Plus WordChar), Lit '';'']"

text \<open>\<^verbatim>\<open>import \"(?P<field>.+.proto)\";\<close>\<close>
definition rx_import :: rx where
  "rx_import = seq [Lit ''import \"'',
     Group ''field'' (seq [Plus AnyChar, One AnyChar, Lit ''proto'']), Lit ''\";'']"

text \<open>\<^verbatim>\<open>message (?P<name>\w+) {\<close>\<close>
definition rx_message :: rx where
  "rx_message = seq [Lit ''message '', Group ''name'' (Plus WordChar), Lit '' {'']"

text \<open>\<^verbatim>\<open>enum (?P<name>\w+) {\<close>\<close>
definition rx_enum :: rx where
  "rx_enum = seq [Lit ''enum '', Group ''name'' (Plus WordChar), Lit '' {'']"

text \<open>\<^verbatim>\<open>(?P<key>\w+) = \d+;\<close>\<close>
definition rx_enum_value :: rx where
  "rx_enum_value = seq [Group ''key'' (Plus WordChar), Lit '' = '', Plus DigitChar, Lit '';'']"

text \<open>\<^verbatim>\<open>(repeated )?(?P<field_type>.+) (?P<name>\w+) = (?P<index>\d+);(// required)?\<close>\<close>
definition rx_field :: rx where
  "rx_field = seq [Opt (Lit ''repeated ''), Group ''field_type'' (Plus AnyChar), Lit '' '',
     Group ''name'' (Plus WordChar), Lit '' = '', Group ''index'' (Plus DigitChar), Lit '';'',
     Opt (Lit ''// required'')]"

text \<open>\<^verbatim>\<open>map<\w+, ?(?P<value>[\w.]+)>\<close>\<close>
definition rx_map :: rx where
  "rx_map = seq [Lit ''map<'', Plus WordChar, Lit '','', Opt (Lit '' ''),
     Group ''value'' (Plus WordOrDot), Lit ''>'']"

section \<open>The schema model (proto\_manager.py)\<close>

definition STRING_TYPES :: "string list" where
  "STRING_TYPES = [''string'', ''google.protobuf.StringValue'']"

definition INT_TYPES :: "string list" where
  "INT_TYPES = [''int32'', ''int64'', ''uint32'', ''uint64'', ''sint32'', ''sint64'',
     ''fixed32'', ''fixed64'', ''sfixed32'', ''sfixed64'',
     ''google.protobuf.Int32Value'', ''google.protobuf.Int64Value'']"

definition FLOAT_TYPES :: "string list" where
  "FLOAT_TYPES = [''float'', ''double'']"

definition BOOL_TYPES :: "string list" where
  "BOOL_TYPES = [''bool'', ''google.protobuf.BoolValue'']"

definition BYTES_TYPES :: "string list" where
  "BYTES_TYPES = [''bytes'']"

definition is_base_type :: "string \<Rightarrow> bool" where
  "is_base_type field_type =
     (field_type \<in> set (STRING_TYPES @ FLOAT_TYPES @ INT_TYPES @ BOOL_TYPES @ BYTES_TYPES))"

text \<open>
  \<open>MessageField\<close>: the attributes \<open>is_base_type\<close> and \<open>is_map\<close> are computed from the type
  in the constructor and never assigned again, so they are functions of the field.
\<close>

datatype MessageField =
  MessageField (field_type: string) (is_repeated: bool) (is_required: bool)

definition is_map :: "MessageField \<Rightarrow> bool" where
  "is_map f = startswith (field_type f) ''map<''"

datatype EnumField = EnumField (enum_field_name: string) (enum_field_values: "string list")

text \<open>
  What a dictionary of the model can hold: a \<open>MessageField\<close>, an \<open>EnumField\<close>, or
  another dictionary. A message scope is a dictionary with the fields dictionary under
  \<open>FIELDS_KEY\<close> and the nested declarations under their names.
\<close>

datatype node = FieldNode MessageField | EnumNode EnumField | DictNode "(string \<times> node) list"

definition FIELDS_KEY :: string where
  "FIELDS_KEY = ''__fields__''"

text \<open>
  The attributes of a \<open>ProtoFile\<close> that are read after parsing. The imports dictionary is
  keyed by the imported file's \<open>package\<close>, which is \<open>None\<close> when that file has no package
  line.
\<close>

datatype ProtoFile = ProtoFile (go_package: "string option") (package: "string option")
  (imported_packages: "(string option \<times> ProtoFile) list") (proto_structure: "(string \<times> node) list")

text \<open>\<open>obj[k]\<close> and \<open>obj[k] = v\<close> on an object of the model.\<close>

fun subscript :: "node \<Rightarrow> string \<Rightarrow> pyerr + node" where
  "subscript (DictNode d) k = (case map_of d k of None \<Rightarrow> Inl KeyError | Some v \<Rightarrow> Inr v)"
| "subscript (EnumNode e) k = Inl TypeError"
| "subscript (FieldNode f) k = Inl TypeError"

fun setitem :: "node \<Rightarrow> string \<Rightarrow> node \<Rightarrow> pyerr + node" where
  "setitem (DictNode d) k v = Inr (DictNode (dict_set d k v))"
| "setitem (EnumNode e) k v = Inl TypeError"
| "setitem (FieldNode f) k v = Inl TypeError"

text \<open>
  \<open>has_in_imports\<close>, \<open>get_import_package\<close> and \<open>get_import_package_as_structure\<close>.
\<close>

definition has_in_imports :: "ProtoFile \<Rightarrow> string \<Rightarrow> bool" where
  "has_in_imports proto_file ftype =
     (case split_dot ftype of Inl e \<Rightarrow> False
      | Inr (pkg, msg) \<Rightarrow>
          (case map_of (imported_packages proto_file) (Some pkg) of None \<Rightarrow> False
           | Some p \<Rightarrow> dict_has (proto_structure p) msg))"

definition get_import_package :: "ProtoFile \<Rightarrow> string \<Rightarrow> pyerr + ProtoFile" where
  "get_import_package proto_file ftype =
     (case split_dot ftype of Inl e \<Rightarrow> Inl e
      | Inr (pkg, unused_message) \<Rightarrow>
          (case map_of (imported_packages proto_file) (Some pkg) of None \<Rightarrow> Inl KeyError
           | Some p \<Rightarrow> Inr p))"

definition get_import_package_as_structure :: "ProtoFile \<Rightarrow> string \<Rightarrow> pyerr + node" where
  "get_import_package_as_structure proto_file ftype =
     (case split_dot ftype of Inl e \<Rightarrow> Inl e
      | Inr (pkg, message) \<Rightarrow>
          (case map_of (imported_packages proto_file) (Some pkg) of None \<Rightarrow> Inl KeyError
           | Some p \<Rightarrow> (case map_of (proto_structure p) message of None \<Rightarrow> Inl KeyError
                        | Some v \<Rightarrow> Inr v)))"

section \<open>The parser (proto\_manager.py)\<close>

text \<open>
  The private attributes of a \<open>ProtoFile\<close> while it parses. \<open>st_message_block\<close> is the
  dictionary \<open>{name: {FIELDS_KEY: OrderedDict()}}\<close> of the top-level message that is
  open, or \<open>None\<close>.
\<close>

record parser =
  st_go_package :: "string option"
  st_package :: "string option"
  st_imported_packages :: "(string option \<times> ProtoFile) list"
  st_structure :: "(string \<times> node) list"
  st_is_oneof_block :: bool
  st_is_enum_block :: bool
  st_enum_name :: "string option"
  st_message_block :: "node option"
  st_message_names_path :: "string list"

definition new_parser :: parser where
  "new_parser = \<lparr>st_go_package = None, st_package = None, st_imported_packages = [],
     st_structure = [], st_is_oneof_block = False, st_is_enum_block = False,
     st_enum_name = None, st_message_block = None, st_message_names_path = []\<rparr>"

definition finish :: "parser \<Rightarrow> ProtoFile" where
  "finish st = ProtoFile (st_go_package st) (st_package st) (st_imported_packages st)
     (st_structure st)"

definition merge_proto_file :: "ProtoFile \<Rightarrow> ProtoFile \<Rightarrow> ProtoFile" where
  "merge_proto_file self proto_file =
     ProtoFile (go_package self) (package self)
       (dict_update (imported_packages self) (imported_packages proto_file))
       (dict_update (proto_structure self) (proto_structure proto_file))"

text \<open>
  \<open>__get_current_message_block\<close> walks from the open top-level block along the names
  path. The block it returns is then mutated in place; the schema under construction has
  no shared objects, so the mutation is the update of the tree at that path
  (\<open>modify_at\<close>).
\<close>

fun walk :: "node \<Rightarrow> string list \<Rightarrow> pyerr + node" where
  "walk target [] = Inr target"
| "walk target (n # ns) =
     (case subscript target n of Inl e \<Rightarrow> Inl e | Inr t \<Rightarrow> walk t ns)"

fun modify_at :: "string list \<Rightarrow> (node \<Rightarrow> pyerr + node) \<Rightarrow> node \<Rightarrow> pyerr + node" where
  "modify_at [] f target = f target"
| "modify_at (n # ns) f target =
     (case subscript target n of Inl e \<Rightarrow> Inl e
      | Inr t \<Rightarrow> (case modify_at ns f t of Inl e \<Rightarrow> Inl e | Inr t' \<Rightarrow> setitem target n t'))"

definition get_current_message_block :: "parser \<Rightarrow> pyerr + node option" where
  "get_current_message_block st =
     (case st_message_block st of None \<Rightarrow> Inr None
      | Some b \<Rightarrow> (case walk b (st_message_names_path st) of Inl e \<Rightarrow> Inl e
                   | Inr t \<Rightarrow> Inr (Some t)))"

definition new_scope :: node where
  "new_scope = DictNode [(FIELDS_KEY, DictNode [])]"

definition add_message :: "parser \<Rightarrow> string \<Rightarrow> pyerr + parser" where
  "add_message st name =
     (case st_message_block st of
        None \<Rightarrow> Inr (st\<lparr>st_message_block := Some (DictNode [(name, new_scope)]),
                        st_message_names_path := st_message_names_path st @ [name]\<rparr>)
      | Some b \<Rightarrow>
          (case modify_at (st_message_names_path st)
                  (\<lambda>target. setitem target name new_scope) b of
             Inl e \<Rightarrow> Inl e
           | Inr b' \<Rightarrow> Inr (st\<lparr>st_message_block := Some b',
                               st_message_names_path := st_message_names_path st @ [name]\<rparr>)))"

definition add_enum :: "parser \<Rightarrow> string \<Rightarrow> pyerr + parser" where
  "add_enum st name =
     (let st1 = st\<lparr>st_is_enum_block := True, st_enum_name := Some name\<rparr> in
      case st_message_block st1 of
        None \<Rightarrow> Inr (st1\<lparr>st_structure :=
                          dict_set (st_structure st1) name (EnumNode (EnumField name []))\<rparr>)
      | Some b \<Rightarrow>
          (case modify_at (st_message_names_path st1)
                  (\<lambda>block. setitem block name (EnumNode (EnumField name []))) b of
             Inl e \<Rightarrow> Inl e
           | Inr b' \<Rightarrow> Inr (st1\<lparr>st_message_block := Some b'\<rparr>)))"

text \<open>\<open>field.values.append(value)\<close>: only an \<open>EnumField\<close> has a list under \<open>values\<close>.\<close>

fun values_append :: "node \<Rightarrow> string \<Rightarrow> pyerr + node" where
  "values_append (EnumNode (EnumField n vs)) v = Inr (EnumNode (EnumField n (vs @ [v])))"
| "values_append (DictNode d) v = Inl AttributeError"
| "values_append (FieldNode f) v = Inl AttributeError"

definition set_enum_value :: "parser \<Rightarrow> string \<Rightarrow> pyerr + parser" where
  "set_enum_value st v =
     (case st_enum_name st of
        None \<Rightarrow> Inl KeyError
      | Some en \<Rightarrow>
          (case st_message_block st of
             None \<Rightarrow>
               (case map_of (st_structure st) en of None \<Rightarrow> Inl KeyError
                | Some field \<Rightarrow>
                    (case values_append field v of Inl e \<Rightarrow> Inl e
                     | Inr field' \<Rightarrow>
                         Inr (st\<lparr>st_structure := dict_set (st_structure st) en field'\<rparr>)))
           | Some b \<Rightarrow>
               (case modify_at (st_message_names_path st)
                       (\<lambda>block. case subscript block en of Inl e \<Rightarrow> Inl e
                          | Inr field \<Rightarrow>
                              (case values_append field v of Inl e \<Rightarrow> Inl e
                               | Inr field' \<Rightarrow> setitem block en field')) b of
                  Inl e \<Rightarrow> Inl e
                | Inr b' \<Rightarrow> Inr (st\<lparr>st_message_block := Some b'\<rparr>))))"

definition close_block :: "parser \<Rightarrow> pyerr + parser" where
  "close_block st =
     (if st_is_enum_block st then Inr (st\<lparr>st_is_enum_block := False, st_enum_name := None\<rparr>)
      else if st_is_oneof_block st then Inr (st\<lparr>st_is_oneof_block := False\<rparr>)
      else if length (st_message_names_path st) > 1
        then Inr (st\<lparr>st_message_names_path := butlast (st_message_names_path st)\<rparr>)
      else (case st_message_names_path st of
              [] \<Rightarrow> Inl IndexError
            | n # ns \<Rightarrow>
                (case st_message_block st of
                   None \<Rightarrow> Inl TypeError
                 | Some b \<Rightarrow>
                     (case subscript b n of Inl e \<Rightarrow> Inl e
                      | Inr scope \<Rightarrow>
                          Inr (st\<lparr>st_structure := dict_set (st_structure st) n scope,
                                  st_message_block := None,
                                  st_message_names_path := []\<rparr>)))))"

definition add_field :: "parser \<Rightarrow> string \<Rightarrow> MessageField \<Rightarrow> pyerr + parser" where
  "add_field st name field =
     (case st_message_block st of
        None \<Rightarrow> Inr st
      | Some b \<Rightarrow>
          (case modify_at (st_message_names_path st)
                  (\<lambda>block. case subscript block FIELDS_KEY of Inl e \<Rightarrow> Inl e
                     | Inr proto_fields \<Rightarrow>
                         (case setitem proto_fields name (FieldNode field) of Inl e \<Rightarrow> Inl e
                          | Inr proto_fields' \<Rightarrow> setitem block FIELDS_KEY proto_fields')) b of
             Inl e \<Rightarrow> Inl e
           | Inr b' \<Rightarrow> Inr (st\<lparr>st_message_block := Some b'\<rparr>)))"

text \<open>
  \<open>__add_import_field\<close>: \<open>ProtoFile(field)\<close> parses the imported file; the constructor is
  the parameter \<open>new_proto_file\<close>.
\<close>

definition add_import_field ::
  "(string \<Rightarrow> pyerr + ProtoFile) \<Rightarrow> parser \<Rightarrow> string \<Rightarrow> pyerr + parser" where
  "add_import_field new_proto_file st field =
     (if \<not> startswith field ''proto'' then Inr st
      else (case new_proto_file field of Inl e \<Rightarrow> Inl e
        | Inr proto_module \<Rightarrow>
            (case map_of (st_imported_packages st) (package proto_module) of
               None \<Rightarrow> Inr (st\<lparr>st_imported_packages :=
                   dict_set (st_imported_packages st) (package proto_module) proto_module\<rparr>)
             | Some existing \<Rightarrow> Inr (st\<lparr>st_imported_packages :=
                   dict_set (st_imported_packages st) (package proto_module)
                     (merge_proto_file existing proto_module)\<rparr>))))"

text \<open>The last branch of \<open>__parse_line\<close>: a line that no prefix test claimed.\<close>

definition parse_other :: "parser \<Rightarrow> string \<Rightarrow> pyerr + parser" where
  "parse_other st line =
     (if st_is_enum_block st then
        (if startswith line ''reserved'' then Inr st
         else (case match_group rx_enum_value line ''key'' of Inl e \<Rightarrow> Inl e
               | Inr v \<Rightarrow> set_enum_value st v))
      else if st_message_block st \<noteq> None then
        (case re_match rx_field line of None \<Rightarrow> Inl AttributeError
         | Some info_dict \<Rightarrow>
             (case (map_of info_dict ''field_type'', map_of info_dict ''name'') of
                (Some ft, Some name) \<Rightarrow>
                  add_field st name
                    (MessageField ft (startswith line ''repeated '') (endswith line ''// required''))
              | _ \<Rightarrow> Inl KeyError))
      else Inr st)"

definition parse_line ::
  "(string \<Rightarrow> pyerr + ProtoFile) \<Rightarrow> parser \<Rightarrow> string \<Rightarrow> pyerr + parser" where
  "parse_line new_proto_file st raw =
     (let line = strip raw in
      if startswith line ''option go_package '' then
        (case match_group rx_go_package line ''package'' of Inl e \<Rightarrow> Inl e
         | Inr p \<Rightarrow> Inr (st\<lparr>st_go_package := Some p\<rparr>))
      else if startswith line ''package'' then
        (case match_group rx_package line ''name'' of Inl e \<Rightarrow> Inl e
         | Inr p \<Rightarrow> Inr (st\<lparr>st_package := Some p\<rparr>))
      else if startswith line ''import '' then
        (case match_group rx_import line ''field'' of Inl e \<Rightarrow> Inl e
         | Inr field \<Rightarrow> add_import_field new_proto_file st field)
      else if startswith line ''message '' then
        (case match_group rx_message line ''name'' of Inl e \<Rightarrow> Inl e
         | Inr n \<Rightarrow> add_message st n)
      else if startswith line ''enum '' then
        (case match_group rx_enum line ''name'' of Inl e \<Rightarrow> Inl e
         | Inr n \<Rightarrow> add_enum st n)
      else if startswith line ''oneof '' then Inr (st\<lparr>st_is_oneof_block := True\<rparr>)
      else if startswith line ''}'' then close_block st
      else if startswith line ''//'' then Inr st
      else if line = [] then Inr st
      else parse_other st line)"

fun parse_lines ::
  "(string \<Rightarrow> pyerr + ProtoFile) \<Rightarrow> parser \<Rightarrow> string list \<Rightarrow> pyerr + parser" where
  "parse_lines new_proto_file st [] = Inr st"
| "parse_lines new_proto_file st (l # ls) =
     (case parse_line new_proto_file st l of Inl e \<Rightarrow> Inl e
      | Inr st' \<Rightarrow> parse_lines new_proto_file st' ls)"

text \<open>
  \<open>ProtoFile(filename)\<close>. The file system is a function from names to the lines of a
  file; the first argument bounds the depth of nested imports (the source has no guard
  against an import cycle, which ends in \<open>RecursionError\<close>).
\<close>

primrec new_ProtoFile ::
  "nat \<Rightarrow> (string \<Rightarrow> string list option) \<Rightarrow> string \<Rightarrow> pyerr + ProtoFile" where
  "new_ProtoFile 0 fs = (\<lambda>filename. Inl RecursionError)"
| "new_ProtoFile (Suc n) fs = (\<lambda>filename.
     case fs filename of None \<Rightarrow> Inl IOError
     | Some lines \<Rightarrow>
         (case parse_lines (new_ProtoFile n fs) new_parser lines of Inl e \<Rightarrow> Inl e
          | Inr st \<Rightarrow> Inr (finish st)))"

section \<open>The example generator (proto\_json.py)\<close>

text \<open>\<open>__get_default_value_for_field\<close>; falling off the end returns \<open>None\<close>.\<close>

definition get_default_value_for_field :: "MessageField \<Rightarrow> pyval" where
  "get_default_value_for_field field =
     (if field_type field \<in> set STRING_TYPES then
        PStr (if is_required field then ''String'' else ''Optional string'')
      else if field_type field \<in> set INT_TYPES then
        PInt (if is_required field then 100 else 50)
      else if field_type field \<in> set FLOAT_TYPES then
        PFloat (if is_required field then 201 / 2 else 201 / 4)
      else if field_type field \<in> set BOOL_TYPES then PBool (is_required field)
      else PNone)"

definition get_default_value_for_enum :: "EnumField \<Rightarrow> MessageField \<Rightarrow> pyval" where
  "get_default_value_for_enum enum_field field =
     (case enum_field_values enum_field of
        v # vs \<Rightarrow> PStr v
      | [] \<Rightarrow> PStr (if is_required field then ''Enum'' else ''Optional enum''))"

text \<open>\<open>result.get(k)\<close>\<close>

definition dict_get_or_none :: "(string \<times> pyval) list \<Rightarrow> string \<Rightarrow> pyval" where
  "dict_get_or_none d k = (case map_of d k of None \<Rightarrow> PNone | Some v \<Rightarrow> v)"

text \<open>
  \<open>__get_object\<close>, its loop over the fields (\<open>get_object_fields\<close>, with the \<open>result\<close>
  built so far), \<open>__get_import_package_as_object\<close> and \<open>as_object\<close>. The first argument
  is the number of nested \<open>__get_object\<close> calls the interpreter still allows: a message
  that contains itself makes the source recurse until \<open>RecursionError\<close>.
\<close>

function get_object :: "nat \<Rightarrow> ProtoFile \<Rightarrow> node \<Rightarrow> pyerr + pyval"
and get_object_fields ::
  "nat \<Rightarrow> ProtoFile \<Rightarrow> (string \<times> node) list \<Rightarrow> (string \<times> node) list \<Rightarrow>
   (string \<times> pyval) list \<Rightarrow> pyerr + pyval"
and get_import_package_as_object :: "nat \<Rightarrow> ProtoFile \<Rightarrow> string \<Rightarrow> pyerr + pyval"
and as_object :: "nat \<Rightarrow> ProtoFile \<Rightarrow> string \<Rightarrow> pyerr + pyval"
where
  "get_object 0 proto_file scope = Inl RecursionError"
| "get_object (Suc n) proto_file scope =
     (case scope of
        EnumNode e \<Rightarrow> Inl TypeError
      | FieldNode f \<Rightarrow> Inl TypeError
      | DictNode structure_field \<Rightarrow>
          (case map_of structure_field FIELDS_KEY of
             None \<Rightarrow> Inl KeyError
           | Some (DictNode proto_fields) \<Rightarrow>
               get_object_fields n proto_file structure_field proto_fields []
           | Some (EnumNode e) \<Rightarrow> Inl AttributeError
           | Some (FieldNode f) \<Rightarrow> Inl AttributeError))"
| "get_object_fields n proto_file structure_field [] result = Inr (POrderedDict result)"
| "get_object_fields n proto_file structure_field (item # rest) result =
     (case snd item of
        DictNode d \<Rightarrow> Inl AttributeError
      | EnumNode e \<Rightarrow> Inl AttributeError
      | FieldNode field \<Rightarrow>
         (case
            (if get_default_value_for_field field \<noteq> PNone then
               Inr (get_default_value_for_field field)
             else if has_in_imports proto_file (field_type field) then
               get_import_package_as_object n proto_file (field_type field)
             else
               (case (if dict_has structure_field (field_type field)
                      then map_of structure_field (field_type field)
                      else if dict_has (proto_structure proto_file) (field_type field)
                      then map_of (proto_structure proto_file) (field_type field)
                      else None) of
                  Some (DictNode next_field) \<Rightarrow> get_object n proto_file (DictNode next_field)
                | Some (EnumNode next_field) \<Rightarrow>
                    Inr (get_default_value_for_enum next_field field)
                | Some (FieldNode next_field) \<Rightarrow> Inr (PDict [])
                | None \<Rightarrow> Inr (PDict [])))
          of Inl e \<Rightarrow> Inl e
           | Inr v \<Rightarrow>
               (let result1 = dict_set result (fst item) v;
                    result2 = (if is_repeated field
                               then dict_set result1 (fst item)
                                      (PList [dict_get_or_none result1 (fst item)])
                               else result1)
                in get_object_fields n proto_file structure_field rest result2)))"
| "get_import_package_as_object n proto_file ftype =
     (case split_dot ftype of Inl e \<Rightarrow> Inl e
      | Inr (pkg_name, message) \<Rightarrow>
          (case map_of (imported_packages proto_file) (Some pkg_name) of
             None \<Rightarrow> Inl KeyError
           | Some pkg \<Rightarrow> as_object n pkg message))"
| "as_object n proto_file root_field_name =
     (case map_of (proto_structure proto_file) root_field_name of
        None \<Rightarrow> Inl KeyError
      | Some scope \<Rightarrow> get_object n proto_file scope)"
  by pat_completeness auto
termination
  by (relation "inv_image (less_than <*lex*> less_than) (\<lambda>x. case x of
      Inl (Inl (n, pf, sc)) \<Rightarrow> (4 * n, 0)
    | Inl (Inr (n, pf, sf, items, res)) \<Rightarrow> (4 * n + 3, length items)
    | Inr (Inl (n, pf, t)) \<Rightarrow> (4 * n + 2, 0)
    | Inr (Inr (n, pf, r)) \<Rightarrow> (4 * n + 1, 0))") auto

subsection \<open>The value the generator computes for one field\<close>

text \<open>
  \<open>lookup_next_field\<close> is \<open>next_field\<close> after the \<open>if\<close>/\<open>elif\<close> of \<open>__get_object\<close>, and
  \<open>field_value\<close> the value that the loop body assigns to \<open>result[field_name]\<close> before the
  test for a repeated field.
\<close>

definition lookup_next_field :: "ProtoFile \<Rightarrow> (string \<times> node) list \<Rightarrow> string \<Rightarrow> node option" where
  "lookup_next_field proto_file structure_field t =
     (if dict_has structure_field t then map_of structure_field t
      else if dict_has (proto_structure proto_file) t then map_of (proto_structure proto_file) t
      else None)"

definition field_value ::
  "nat \<Rightarrow> ProtoFile \<Rightarrow> (string \<times> node) list \<Rightarrow> MessageField \<Rightarrow> pyerr + pyval" where
  "field_value n proto_file structure_field field =
     (if get_default_value_for_field field \<noteq> PNone then
        Inr (get_default_value_for_field field)
      else if has_in_imports proto_file (field_type field) then
        get_import_package_as_object n proto_file (field_type field)
      else
        (case lookup_next_field proto_file structure_field (field_type field) of
           Some (DictNode next_field) \<Rightarrow> get_object n proto_file (DictNode next_field)
         | Some (EnumNode next_field) \<Rightarrow> Inr (get_default_value_for_enum next_field field)
         | Some (FieldNode next_field) \<Rightarrow> Inr (PDict [])
         | None \<Rightarrow> Inr (PDict [])))"

text \<open>The value that the loop body leaves in \<open>result[field_name]\<close>.\<close>

definition wrapped :: "MessageField \<Rightarrow> pyval \<Rightarrow> pyval" where
  "wrapped field v = (if is_repeated field then PList [v] else v)"

section \<open>The validator (proto\_validator.py)\<close>

text \<open>
  A diagnostic is the pair of the path and the message that \<open>__add_errors\<close> joins into
  \<open>"%s: %s"\<close>. A message is kept as its format with the arguments of the \<open>%\<close> operator,
  so that no \<open>repr\<close> of a document value has to be spelled out.
\<close>

datatype message =
    WrongType string string pyval
      \<comment> \<open>\<open>wrong type. Expected type [%s], got [%s] (as %r) instead.\<close>\<close>
  | NotAValidMap string string pyval
      \<comment> \<open>\<open>not a valid map. Expected type [%s], got [%s] (as %r) instead.\<close>\<close>
  | WrongValueType string string string string pyval
      \<comment> \<open>\<open>wrong value's type for key '%s'. Expected type [%s] (from [%s]), got [%s] (as %r) instead.\<close>\<close>
  | UnknownValue pyval string
      \<comment> \<open>\<open>unknown value '%s' for [enum %s].\<close>\<close>
  | Excess string
      \<comment> \<open>\<open>field '%s' is excess.\<close>\<close>
  | Required string string
      \<comment> \<open>\<open>field '%s [%s]' is required.\<close>\<close>
  | ExpectedStructure string string pyval
      \<comment> \<open>\<open>expected structure [%s], got [%s] (as %r) instead.\<close>\<close>
  | ExpectedArray string string
      \<comment> \<open>\<open>expected array of [%s], got [%s]\<close>\<close>

type_synonym diag = "string \<times> message"

text \<open>
  \<open>__add_errors\<close> appends to \<open>self.__errors\<close>: nothing for \<open>None\<close>, one entry for a string,
  and the entries of a list in order.
\<close>

definition add_error :: "string \<Rightarrow> message option \<Rightarrow> diag list \<Rightarrow> diag list" where
  "add_error test_path e errs = (case e of None \<Rightarrow> errs | Some m \<Rightarrow> errs @ [(test_path, m)])"

definition add_errors :: "string \<Rightarrow> message option list \<Rightarrow> diag list \<Rightarrow> diag list" where
  "add_errors test_path es errs = foldl (\<lambda>acc e. add_error test_path e acc) errs es"

definition type_associations :: "(string list \<times> string list) list" where
  "type_associations = [(STRING_TYPES, [''str'', ''unicode'']), (FLOAT_TYPES, [''float'']),
     (INT_TYPES, [''int'', ''long'']), (BOOL_TYPES, [''bool''])]"

fun validate_base_type_loop ::
  "(string list \<times> string list) list \<Rightarrow> string \<Rightarrow> pyval \<Rightarrow> message option" where
  "validate_base_type_loop [] proto_type test_value = None"
| "validate_base_type_loop ((proto_types, python_types) # rest) proto_type test_value =
     (if proto_type \<in> set proto_types \<and> type_name test_value \<notin> set python_types
      then Some (WrongType proto_type (type_name test_value) test_value)
      else validate_base_type_loop rest proto_type test_value)"

definition validate_base_type :: "string \<Rightarrow> pyval \<Rightarrow> message option" where
  "validate_base_type proto_type test_value =
     validate_base_type_loop type_associations proto_type test_value"

definition validate_multiply_base_types :: "string \<Rightarrow> pyval list \<Rightarrow> message option list" where
  "validate_multiply_base_types proto_type test_value =
     map (validate_base_type proto_type) test_value"

text \<open>
  \<open>test_value not in enum_field.values\<close>: the values of an \<open>EnumField\<close> are the strings
  the parser matched, and only a string is equal to a string.
\<close>

definition validate_enum_type :: "EnumField \<Rightarrow> pyval \<Rightarrow> message option" where
  "validate_enum_type enum_field test_value =
     (if (case test_value of PStr s \<Rightarrow> s \<in> set (enum_field_values enum_field) | _ \<Rightarrow> False)
      then None
      else Some (UnknownValue test_value (enum_field_name enum_field)))"

definition validate_multiply_enum_types :: "EnumField \<Rightarrow> pyval list \<Rightarrow> message option list"
where
  "validate_multiply_enum_types enum_field test_value =
     map (validate_enum_type enum_field) test_value"

text \<open>\<open>obj.keys()\<close> and \<open>obj.items()\<close> on an object of the model.\<close>

fun node_keys :: "node \<Rightarrow> pyerr + string list" where
  "node_keys (DictNode d) = Inr (map fst d)"
| "node_keys (EnumNode e) = Inl AttributeError"
| "node_keys (FieldNode f) = Inl AttributeError"

fun node_items :: "node \<Rightarrow> pyerr + (string \<times> node) list" where
  "node_items (DictNode d) = Inr d"
| "node_items (EnumNode e) = Inl AttributeError"
| "node_items (FieldNode f) = Inl AttributeError"

text \<open>
  \<open>__validate_and_del_excess\<close> returns the messages and leaves the document without the
  excess keys; \<open>proto_fields.keys()\<close> is evaluated once per key of the document.
\<close>

definition validate_and_del_excess ::
  "node \<Rightarrow> (string \<times> pyval) list \<Rightarrow> pyerr + ((string \<times> pyval) list \<times> message list)" where
  "validate_and_del_excess proto_fields test_data =
     (if test_data = [] then Inr ([], [])
      else (case node_keys proto_fields of Inl e \<Rightarrow> Inl e
        | Inr ks \<Rightarrow>
            (let keys_to_del = filter (\<lambda>test_key. test_key \<notin> set ks) (map fst test_data)
             in Inr (foldl dict_del test_data keys_to_del, map Excess keys_to_del))))"

fun validate_required_loop ::
  "(string \<times> node) list \<Rightarrow> (string \<times> pyval) list \<Rightarrow> pyerr + message list" where
  "validate_required_loop [] test_data = Inr []"
| "validate_required_loop (item # rest) test_data =
     (case snd item of
        DictNode d \<Rightarrow> Inl AttributeError
      | EnumNode e \<Rightarrow> Inl AttributeError
      | FieldNode message_data \<Rightarrow>
          (case validate_required_loop rest test_data of Inl e \<Rightarrow> Inl e
           | Inr errors \<Rightarrow>
               Inr ((if is_required message_data \<and> \<not> dict_has test_data (fst item)
                     then [Required (fst item) (field_type message_data)] else []) @ errors)))"

definition validate_required ::
  "node \<Rightarrow> (string \<times> pyval) list \<Rightarrow> pyerr + message list" where
  "validate_required proto_fields test_data =
     (case node_items proto_fields of Inl e \<Rightarrow> Inl e
      | Inr items \<Rightarrow> validate_required_loop items test_data)"

text \<open>\<open>if scoped_proto_type:\<close>: \<open>None\<close> and an empty dictionary are false.\<close>

fun truthy :: "node option \<Rightarrow> bool" where
  "truthy None = False"
| "truthy (Some (DictNode d)) = (d \<noteq> [])"
| "truthy (Some (EnumNode e)) = True"
| "truthy (Some (FieldNode f)) = True"

text \<open>
  Deleting the excess keys one by one is a filter of the document; the termination proof
  of the validator needs that it does not make the document larger.
\<close>

lemma foldl_dict_del: "foldl dict_del d ks = filter (\<lambda>p. fst p \<notin> set ks) d"
proof (induction ks arbitrary: d)
  case Nil
  show ?case by simp
next
  case (Cons k ks)
  show ?case
    by (subst foldl_Cons, subst Cons.IH) (simp add: dict_del_def conj_commute)
qed

lemma size_list_filter_le: "size_list f (filter P xs) \<le> size_list f xs"
  by (induction xs) auto

lemma validate_and_del_excess_size:
  "validate_and_del_excess proto_fields td = Inr (td1, es) \<Longrightarrow>
     size_list f td1 \<le> size_list f td"
  by (auto simp: validate_and_del_excess_def foldl_dict_del size_list_filter_le Let_def
           split: if_splits sum.splits)

text \<open>
  \<open>__validate_structure\<close> with its loop over the items of the document
  (\<open>validate_fields\<close>) and the body of that loop (\<open>validate_field\<close>),
  \<open>__validate_multiply_structures\<close>, and \<open>__validate_map_type\<close> with its loop
  (\<open>validate_map_items\<close>). The document is mutated in place and \<open>self.__errors\<close> grows:
  each function takes the diagnostics so far and returns the document value as it is
  afterwards together with the new diagnostics. \<open>validate_map_type\<close> also returns the
  list of messages that its caller adds.
\<close>

function validate_structure ::
  "ProtoFile \<Rightarrow> node \<Rightarrow> pyval \<Rightarrow> string \<Rightarrow> string \<Rightarrow> diag list \<Rightarrow> pyerr + (pyval \<times> diag list)"
and validate_fields ::
  "ProtoFile \<Rightarrow> (string \<times> node) list \<Rightarrow> node \<Rightarrow> (string \<times> pyval) list \<Rightarrow> string \<Rightarrow> diag list
   \<Rightarrow> pyerr + ((string \<times> pyval) list \<times> diag list)"
and validate_field ::
  "ProtoFile \<Rightarrow> (string \<times> node) list \<Rightarrow> node \<Rightarrow> string \<Rightarrow> pyval \<Rightarrow> string \<Rightarrow> diag list
   \<Rightarrow> pyerr + (pyval \<times> diag list)"
and validate_multiply_structures ::
  "ProtoFile \<Rightarrow> node \<Rightarrow> pyval list \<Rightarrow> string \<Rightarrow> string \<Rightarrow> diag list
   \<Rightarrow> pyerr + (pyval list \<times> diag list)"
and validate_map_type ::
  "ProtoFile \<Rightarrow> string \<Rightarrow> pyval \<Rightarrow> string \<Rightarrow> diag list
   \<Rightarrow> pyerr + (pyval \<times> message option list \<times> diag list)"
and validate_map_items ::
  "ProtoFile \<Rightarrow> string \<Rightarrow> (string \<times> pyval) list \<Rightarrow> string \<Rightarrow> diag list
   \<Rightarrow> pyerr + ((string \<times> pyval) list \<times> message option list \<times> diag list)"
where
  "validate_structure proto_file proto_scope test_data test_path scope_name errs =
     (case test_data of
        PDict td \<Rightarrow>
          (case proto_scope of
             EnumNode e \<Rightarrow> Inl TypeError
           | FieldNode f \<Rightarrow> Inl TypeError
           | DictNode scope_dict \<Rightarrow>
               (case map_of scope_dict FIELDS_KEY of
                  None \<Rightarrow> Inl KeyError
                | Some proto_fields \<Rightarrow>
                    (case validate_and_del_excess proto_fields td of Inl e \<Rightarrow> Inl e
                     | Inr (td1, errors1) \<Rightarrow>
                         (case validate_required proto_fields td1 of Inl e \<Rightarrow> Inl e
                          | Inr errors2 \<Rightarrow>
                              (case validate_fields proto_file scope_dict proto_fields td1 test_path
                                      (add_errors test_path (map Some errors2)
                                         (add_errors test_path (map Some errors1) errs)) of
                                 Inl e \<Rightarrow> Inl e
                               | Inr (td2, errs') \<Rightarrow> Inr (PDict td2, errs'))))))
      | _ \<Rightarrow>
          Inr (test_data,
               add_error test_path
                 (Some (ExpectedStructure scope_name (type_name test_data) test_data)) errs))"
| "validate_fields proto_file scope_dict proto_fields [] test_path errs = Inr ([], errs)"
| "validate_fields proto_file scope_dict proto_fields (item # rest) test_path errs =
     (case validate_field proto_file scope_dict proto_fields (fst item) (snd item) test_path errs of
        Inl e \<Rightarrow> Inl e
      | Inr (v', errs1) \<Rightarrow>
          (case validate_fields proto_file scope_dict proto_fields rest test_path errs1 of
             Inl e \<Rightarrow> Inl e
           | Inr (rest', errs2) \<Rightarrow> Inr ((fst item, v') # rest', errs2)))"
| "validate_field proto_file scope_dict proto_fields test_key test_value test_path errs =
     (case subscript proto_fields test_key of
        Inl e \<Rightarrow> Inl e
      | Inr (DictNode d) \<Rightarrow> Inl AttributeError
      | Inr (EnumNode e) \<Rightarrow> Inl AttributeError
      | Inr (FieldNode test_message) \<Rightarrow>
          (let new_path = test_path @ '' > '' @ test_key in
           if is_repeated test_message \<and> type_name test_value \<noteq> ''list'' then
             Inr (test_value,
                  add_error new_path
                    (Some (ExpectedArray (field_type test_message) (type_name test_value))) errs)
           else if is_base_type (field_type test_message) then
             (if is_repeated test_message then
                (case test_value of
                   PList vs \<Rightarrow>
                     Inr (test_value,
                          add_errors new_path
                            (validate_multiply_base_types (field_type test_message) vs) errs)
                 | _ \<Rightarrow> Inl TypeError)
              else
                Inr (test_value,
                     add_error new_path
                       (validate_base_type (field_type test_message) test_value) errs))
           else if is_map test_message then
             (case validate_map_type proto_file (field_type test_message) test_value new_path errs of
                Inl e \<Rightarrow> Inl e
              | Inr (v', errors, errs1) \<Rightarrow> Inr (v', add_errors new_path errors errs1))
           else
             (let scoped0 = (if dict_has scope_dict (field_type test_message)
                             then map_of scope_dict (field_type test_message) else None);
                  scoped_proto_type =
                    (if dict_has (proto_structure proto_file) (field_type test_message)
                     then map_of (proto_structure proto_file) (field_type test_message)
                     else scoped0)
              in case scoped_proto_type of
                   Some (EnumNode enum_field) \<Rightarrow>
                     (if is_repeated test_message then
                        (case test_value of
                           PList vs \<Rightarrow>
                             Inr (test_value,
                                  add_errors new_path
                                    (validate_multiply_enum_types enum_field vs) errs)
                         | _ \<Rightarrow> Inl TypeError)
                      else
                        Inr (test_value,
                             add_error new_path (validate_enum_type enum_field test_value) errs))
                 | _ \<Rightarrow>
                     (if truthy scoped_proto_type then
                        (case scoped_proto_type of
                           None \<Rightarrow> Inl TypeError
                         | Some scope \<Rightarrow>
                             (if is_repeated test_message then
                                (case test_value of
                                   PList vs \<Rightarrow>
                                     (case validate_multiply_structures proto_file scope vs
                                             new_path (field_type test_message) errs of
                                        Inl e \<Rightarrow> Inl e
                                      | Inr (vs', errs1) \<Rightarrow> Inr (PList vs', errs1))
                                 | _ \<Rightarrow> Inl TypeError)
                              else
                                validate_structure proto_file scope test_value new_path
                                  (field_type test_message) errs))
                      else if has_in_imports proto_file (field_type test_message) then
                        (case get_import_package proto_file (field_type test_message) of
                           Inl e \<Rightarrow> Inl e
                         | Inr new_proto_file \<Rightarrow>
                             (case get_import_package_as_structure proto_file
                                     (field_type test_message) of
                                Inl e \<Rightarrow> Inl e
                              | Inr new_proto_scope \<Rightarrow>
                                  (if is_repeated test_message then
                                     (case test_value of
                                        PList vs \<Rightarrow>
                                          (case validate_multiply_structures new_proto_file
                                                  new_proto_scope vs new_path
                                                  (field_type test_message) errs of
                                             Inl e \<Rightarrow> Inl e
                                           | Inr (vs', errs1) \<Rightarrow> Inr (PList vs', errs1))
                                      | _ \<Rightarrow> Inl TypeError)
                                   else
                                     validate_structure new_proto_file new_proto_scope test_value
                                       new_path (field_type test_message) errs)))
                      else Inr (test_value, errs)))))"
| "validate_multiply_structures proto_file proto_scope [] test_path scope_name errs =
     Inr ([], errs)"
| "validate_multiply_structures proto_file proto_scope (v # vs) test_path scope_name errs =
     (case validate_structure proto_file proto_scope v test_path scope_name errs of
        Inl e \<Rightarrow> Inl e
      | Inr (v', errs1) \<Rightarrow>
          (case validate_multiply_structures proto_file proto_scope vs test_path scope_name errs1 of
             Inl e \<Rightarrow> Inl e
           | Inr (vs', errs2) \<Rightarrow> Inr (v' # vs', errs2)))"
| "validate_map_type proto_file proto_type test_value test_path errs =
     (case test_value of
        PDict items \<Rightarrow>
          (case validate_map_items proto_file proto_type items test_path errs of
             Inl e \<Rightarrow> Inl e
           | Inr (items', errors, errs1) \<Rightarrow> Inr (PDict items', errors, errs1))
      | _ \<Rightarrow>
          Inr (test_value,
               [Some (NotAValidMap proto_type (type_name test_value) test_value)], errs))"
| "validate_map_items proto_file proto_type [] test_path errs = Inr ([], [], errs)"
| "validate_map_items proto_file proto_type (item # rest) test_path errs =
     (case match_group rx_map proto_type ''value'' of
        Inl e \<Rightarrow> Inl e
      | Inr map_value_type \<Rightarrow>
          (case
             (if is_base_type map_value_type then
                Inr (snd item, validate_base_type map_value_type (snd item), errs)
              else
                (case get_import_package proto_file map_value_type of
                   Inl e \<Rightarrow> Inl e
                 | Inr new_proto_file \<Rightarrow>
                     (case get_import_package_as_structure proto_file map_value_type of
                        Inl e \<Rightarrow> Inl e
                      | Inr new_proto_scope \<Rightarrow>
                          (case validate_structure new_proto_file new_proto_scope (snd item)
                                  (test_path @ '' > '' @ fst item) map_value_type errs of
                             Inl e \<Rightarrow> Inl e
                           | Inr (v', errs1) \<Rightarrow> Inr (v', None, errs1)))))
           of Inl e \<Rightarrow> Inl e
            | Inr (v', error, errs1) \<Rightarrow>
                (case validate_map_items proto_file proto_type rest test_path errs1 of
                   Inl e \<Rightarrow> Inl e
                 | Inr (rest', errors, errs2) \<Rightarrow>
                     Inr ((fst item, v') # rest',
                          (if error \<noteq> None
                           then [Some (WrongValueType (fst item) map_value_type proto_type
                                         (type_name (snd item)) (snd item))]
                           else []) @ errors,
                          errs2))))"
  by pat_completeness auto

termination
proof (relation "inv_image (less_than <*lex*> less_than) (\<lambda>x. case x of
      Inl (Inl (pf, sc, td, r)) \<Rightarrow> (size td, 1)
    | Inl (Inr (Inl (pf, sd, pfs, items, r))) \<Rightarrow> (size (PDict items), 0)
    | Inl (Inr (Inr (pf, sd, pfs, k, v, r))) \<Rightarrow> (size v, 3)
    | Inr (Inl (pf, sc, vs, r)) \<Rightarrow> (size (PList vs), 0)
    | Inr (Inr (Inl (pf, pt, v, r))) \<Rightarrow> (size v, 2)
    | Inr (Inr (Inr (pf, pt, items, r))) \<Rightarrow> (size (PDict items), 0))",
    goal_cases)
  case 1
  show ?case by (intro wf_inv_image wf_lex_prod wf_less_than)
next
  case (2 proto_file proto_scope test_data test_path scope_name errs td scope_dict
          proto_fields r td1 errors1 errors2)
  have "size_list (size_prod (\<lambda>x. 0) size) td1 \<le> size_list (size_prod (\<lambda>x. 0) size) td"
    using 2 validate_and_del_excess_size [of proto_fields td td1 errors1] by simp
  then show ?case using 2 by auto
qed (auto simp: less_Suc_eq_le split: prod.splits)

declare validate_structure.simps [simp del] validate_field.simps [simp del]
  validate_map_type.simps [simp del] validate_map_items.simps(2) [simp del]

text \<open>
  \<open>validate_json\<close> returns the pair of the flag and \<open>self.__errors\<close>; the third component
  is the document as the call leaves it.
\<close>

definition validate_json ::
  "ProtoFile \<Rightarrow> string \<Rightarrow> pyval \<Rightarrow> pyerr + (bool \<times> diag list \<times> pyval)" where
  "validate_json proto_file root_field_name test_data =
     (case map_of (proto_structure proto_file) root_field_name of
        None \<Rightarrow> Inl KeyError
      | Some proto_scope \<Rightarrow>
          (case validate_structure proto_file proto_scope test_data root_field_name
                  root_field_name [] of
             Inl e \<Rightarrow> Inl e
           | Inr (test_data', errs) \<Rightarrow> Inr (errs \<noteq> [], errs, test_data')))"

subsection \<open>The plan of the loop body\<close>

text \<open>
  The loop body \<open>validate_field\<close> either fails, or only reports messages about the value,
  or hands the value to exactly one of the recursive functions. \<open>field_plan\<close> computes
  which, following the same tests in the same order; \<open>lookup_scoped\<close> is the value of
  \<open>scoped_proto_type\<close> after its two assignments.
\<close>

datatype field_plan = Fail pyerr | Report "message option list" | AsMap ProtoFile string
  | AsStructure ProtoFile node string | AsStructures ProtoFile node string "pyval list"

definition lookup_scoped :: "ProtoFile \<Rightarrow> (string \<times> node) list \<Rightarrow> string \<Rightarrow> node option" where
  "lookup_scoped proto_file scope_dict t =
     (if dict_has (proto_structure proto_file) t then map_of (proto_structure proto_file) t
      else if dict_has scope_dict t then map_of scope_dict t else None)"

definition recursion_plan :: "ProtoFile \<Rightarrow> node \<Rightarrow> MessageField \<Rightarrow> pyval \<Rightarrow> field_plan" where
  "recursion_plan proto_file scope f v =
     (if is_repeated f
      then (case v of PList vs \<Rightarrow> AsStructures proto_file scope (field_type f) vs
            | _ \<Rightarrow> Fail TypeError)
      else AsStructure proto_file scope (field_type f))"

definition message_plan :: "ProtoFile \<Rightarrow> node option \<Rightarrow> MessageField \<Rightarrow> pyval \<Rightarrow> field_plan" where
  "message_plan proto_file scoped f v =
     (if truthy scoped then
        (case scoped of None \<Rightarrow> Fail TypeError
         | Some scope \<Rightarrow> recursion_plan proto_file scope f v)
      else if has_in_imports proto_file (field_type f) then
        (case get_import_package proto_file (field_type f) of Inl e \<Rightarrow> Fail e
         | Inr new_proto_file \<Rightarrow>
             (case get_import_package_as_structure proto_file (field_type f) of
                Inl e \<Rightarrow> Fail e
              | Inr new_proto_scope \<Rightarrow> recursion_plan new_proto_file new_proto_scope f v))
      else Report [])"

definition field_plan ::
  "ProtoFile \<Rightarrow> (string \<times> node) list \<Rightarrow> node \<Rightarrow> string \<Rightarrow> pyval \<Rightarrow> field_plan" where
  "field_plan proto_file scope_dict proto_fields test_key test_value =
     (case subscript proto_fields test_key of
        Inl e \<Rightarrow> Fail e
      | Inr (DictNode d) \<Rightarrow> Fail AttributeError
      | Inr (EnumNode e) \<Rightarrow> Fail AttributeError
      | Inr (FieldNode f) \<Rightarrow>
          (if is_repeated f \<and> type_name test_value \<noteq> ''list'' then
             Report [Some (ExpectedArray (field_type f) (type_name test_value))]
           else if is_base_type (field_type f) then
             (if is_repeated f then
                (case test_value of
                   PList vs \<Rightarrow> Report (validate_multiply_base_types (field_type f) vs)
                 | _ \<Rightarrow> Fail TypeError)
              else Report [validate_base_type (field_type f) test_value])
           else if is_map f then AsMap proto_file (field_type f)
           else
             (case lookup_scoped proto_file scope_dict (field_type f) of
                Some (EnumNode enum_field) \<Rightarrow>
                  (if is_repeated f then
                     (case test_value of
                        PList vs \<Rightarrow> Report (validate_multiply_enum_types enum_field vs)
                      | _ \<Rightarrow> Fail TypeError)
                   else Report [validate_enum_type enum_field test_value])
              | Some (DictNode d) \<Rightarrow> message_plan proto_file (Some (DictNode d)) f test_value
              | Some (FieldNode g) \<Rightarrow> message_plan proto_file (Some (FieldNode g)) f test_value
              | None \<Rightarrow> message_plan proto_file None f test_value)))"

text \<open>What \<open>validate_field\<close> does with its plan.\<close>

definition run_plan ::
  "field_plan \<Rightarrow> pyval \<Rightarrow> string \<Rightarrow> diag list \<Rightarrow> pyerr + (pyval \<times> diag list)" where
  "run_plan plan test_value new_path errs =
     (case plan of
        Fail e \<Rightarrow> Inl e
      | Report ms \<Rightarrow> Inr (test_value, add_errors new_path ms errs)
      | AsMap pf t \<Rightarrow>
          (case validate_map_type pf t test_value new_path errs of
             Inl e \<Rightarrow> Inl e
           | Inr (v', errors, errs1) \<Rightarrow> Inr (v', add_errors new_path errors errs1))
      | AsStructure pf sc nm \<Rightarrow> validate_structure pf sc test_value new_path nm errs
      | AsStructures pf sc nm vs \<Rightarrow>
          (case validate_multiply_structures pf sc vs new_path nm errs of
             Inl e \<Rightarrow> Inl e
           | Inr (vs', errs1) \<Rightarrow> Inr (PList vs', errs1)))"


subsection \<open>Documents with keys deleted\<close>




subsection \<open>Diagnostics about excess fields\<close>

definition is_excess :: "message \<Rightarrow> bool" where
  "is_excess m = (case m of Excess k \<Rightarrow> True | _ \<Rightarrow> False)"

text \<open>No diagnostic of the list reports an excess field.\<close>

definition excess_free :: "diag list \<Rightarrow> bool" where
  "excess_free ds = list_all (\<lambda>d. \<not> is_excess (snd d)) ds"

definition no_excess :: "message option list \<Rightarrow> bool" where
  "no_excess ms = list_all (\<lambda>e. case e of None \<Rightarrow> True | Some m \<Rightarrow> \<not> is_excess m) ms"

text \<open>The entries that \<open>__add_errors\<close> appends for a list of messages.\<close>

definition diags :: "string \<Rightarrow> message option list \<Rightarrow> diag list" where
  "diags test_path es =
     concat (map (\<lambda>e. case e of None \<Rightarrow> [] | Some m \<Rightarrow> [(test_path, m)]) es)"

subsection \<open>Documents restricted to the declared fields\<close>

text \<open>
  \<open>declared proto_fields k\<close>: the fields dictionary of a scope declares a field named \<open>k\<close>.
\<close>

definition declared :: "node \<Rightarrow> string \<Rightarrow> bool" where
  "declared proto_fields k =
     (case proto_fields of DictNode fs \<Rightarrow> k \<in> set (map fst fs) | _ \<Rightarrow> False)"

text \<open>
  \<open>restricted proto_file proto_scope v' v\<close>: the value \<open>v'\<close> is \<open>v\<close> restricted to the
  declared field names at every nesting level. When \<open>v\<close> is a dictionary, the keys of \<open>v'\<close>
  are exactly the keys of \<open>v\<close> that the scope declares, in their order; the value of a
  kept key is the same when its field is a scalar, an enum, an unknown type or a repeated
  field that is no list (\<open>Report\<close>), and it is restricted in turn, against the scope to
  which the type of the field resolves, when the field is a message, a list of messages
  or a map of messages. When \<open>v\<close> is no dictionary, \<open>v'\<close> is \<open>v\<close>. The five other
  predicates are the same relation for the items of a dictionary, for the value of one
  field, for the elements of a list, and for a map and its entries.
\<close>

function restricted :: "ProtoFile \<Rightarrow> node \<Rightarrow> pyval \<Rightarrow> pyval \<Rightarrow> bool"
and restricted_fields ::
  "ProtoFile \<Rightarrow> (string \<times> node) list \<Rightarrow> node \<Rightarrow> (string \<times> pyval) list \<Rightarrow> (string \<times> pyval) list
   \<Rightarrow> bool"
and restricted_field ::
  "ProtoFile \<Rightarrow> (string \<times> node) list \<Rightarrow> node \<Rightarrow> string \<Rightarrow> pyval \<Rightarrow> pyval \<Rightarrow> bool"
and restricted_list :: "ProtoFile \<Rightarrow> node \<Rightarrow> pyval list \<Rightarrow> pyval list \<Rightarrow> bool"
and restricted_map :: "ProtoFile \<Rightarrow> string \<Rightarrow> pyval \<Rightarrow> pyval \<Rightarrow> bool"
and restricted_map_items ::
  "ProtoFile \<Rightarrow> string \<Rightarrow> (string \<times> pyval) list \<Rightarrow> (string \<times> pyval) list \<Rightarrow> bool"
where
  "restricted proto_file proto_scope v' v =
     (case v of
        PDict d \<Rightarrow>
          (case proto_scope of
             DictNode scope_dict \<Rightarrow>
               (case map_of scope_dict FIELDS_KEY of
                  None \<Rightarrow> False
                | Some proto_fields \<Rightarrow>
                    (case v' of
                       PDict d' \<Rightarrow>
                         restricted_fields proto_file scope_dict proto_fields d'
                           (filter (\<lambda>p. declared proto_fields (fst p)) d)
                     | _ \<Rightarrow> False))
           | _ \<Rightarrow> False)
      | _ \<Rightarrow> v' = v)"
| "restricted_fields proto_file scope_dict proto_fields d' [] = (d' = [])"
| "restricted_fields proto_file scope_dict proto_fields d' (p # r) =
     (case d' of
        [] \<Rightarrow> False
      | p' # r' \<Rightarrow>
          fst p' = fst p \<and>
          restricted_field proto_file scope_dict proto_fields (fst p) (snd p') (snd p) \<and>
          restricted_fields proto_file scope_dict proto_fields r' r)"
| "restricted_field proto_file scope_dict proto_fields k v' v =
     (case field_plan proto_file scope_dict proto_fields k v of
        Fail e \<Rightarrow> False
      | Report ms \<Rightarrow> v' = v
      | AsMap pf t \<Rightarrow> restricted_map pf t v' v
      | AsStructure pf sc nm \<Rightarrow> restricted pf sc v' v
      | AsStructures pf sc nm vs0 \<Rightarrow>
          (case v of
             PList vs \<Rightarrow> (case v' of PList vs' \<Rightarrow> restricted_list pf sc vs' vs | _ \<Rightarrow> False)
           | _ \<Rightarrow> False))"
| "restricted_list proto_file proto_scope vs' [] = (vs' = [])"
| "restricted_list proto_file proto_scope vs' (x # r) =
     (case vs' of
        [] \<Rightarrow> False
      | x' # r' \<Rightarrow> restricted proto_file proto_scope x' x \<and>
                   restricted_list proto_file proto_scope r' r)"
| "restricted_map proto_file proto_type v' v =
     (case v of
        PDict items \<Rightarrow>
          (case v' of PDict items' \<Rightarrow> restricted_map_items proto_file proto_type items' items
           | _ \<Rightarrow> False)
      | _ \<Rightarrow> v' = v)"
| "restricted_map_items proto_file proto_type items' [] = (items' = [])"
| "restricted_map_items proto_file proto_type items' (p # r) =
     (case items' of
        [] \<Rightarrow> False
      | p' # r' \<Rightarrow>
          fst p' = fst p \<and>
          (case match_group rx_map proto_type ''value'' of
             Inl e \<Rightarrow> False
           | Inr map_value_type \<Rightarrow>
               (if is_base_type map_value_type then snd p' = snd p
                else (case get_import_package proto_file map_value_type of
                        Inl e \<Rightarrow> False
                      | Inr new_proto_file \<Rightarrow>
                          (case get_import_package_as_structure proto_file map_value_type of
                             Inl e \<Rightarrow> False
                           | Inr new_proto_scope \<Rightarrow>
                               restricted new_proto_file new_proto_scope (snd p') (snd p))))) \<and>
          restricted_map_items proto_file proto_type r' r)"
  by pat_completeness auto

termination
proof (relation "inv_image (less_than <*lex*> less_than) (\<lambda>x. case x of
      Inl (Inl (pf, sc, v', v)) \<Rightarrow> (size v, 1)
    | Inl (Inr (Inl (pf, sd, pfs, d', d))) \<Rightarrow> (size (PDict d), 0)
    | Inl (Inr (Inr (pf, sd, pfs, k, v', v))) \<Rightarrow> (size v, 3)
    | Inr (Inl (pf, sc, vs', vs)) \<Rightarrow> (size (PList vs), 0)
    | Inr (Inr (Inl (pf, t, v', v))) \<Rightarrow> (size v, 2)
    | Inr (Inr (Inr (pf, t, d', d))) \<Rightarrow> (size (PDict d), 0))",
    goal_cases)
  case 1
  show ?case by (intro wf_inv_image wf_lex_prod wf_less_than)
next
  case (2 proto_file proto_scope v' v d scope_dict proto_fields d')
  have "size_list (size_prod (\<lambda>x. 0) size) (filter (\<lambda>p. declared proto_fields (fst p)) d)
          \<le> size_list (size_prod (\<lambda>x. 0) size) d"
    by (rule size_list_filter_le)
  then show ?case using 2 by auto
qed (auto simp: less_Suc_eq_le split: prod.splits)

declare restricted.simps [simp del] restricted_field.simps [simp del]
  restricted_map.simps [simp del]


subsection \<open>Schemas on which generator and validator agree\<close>

text \<open>
  The generated document as a consumer of its JSON text receives it: every
  \<open>OrderedDict\<close> is a plain \<open>dict\<close>, everything else is the same.
\<close>

primrec plain_dicts :: "pyval \<Rightarrow> pyval" where
  "plain_dicts PNone = PNone"
| "plain_dicts (PBool b) = PBool b"
| "plain_dicts (PInt i) = PInt i"
| "plain_dicts (PFloat r) = PFloat r"
| "plain_dicts (PStr s) = PStr s"
| "plain_dicts (PList xs) = PList (map plain_dicts xs)"
| "plain_dicts (PDict d) = PDict (map (map_prod id plain_dicts) d)"
| "plain_dicts (POrderedDict d) = PDict (map (map_prod id plain_dicts) d)"

text \<open>
  A field on which generator and validator agree. The field is a scalar with an example
  value; or its type is found in the imports, is not a map type and is declared neither in
  the scope nor at top level, and the imported scope is agreeable; or its type is found in
  the scope or at top level as a message that is agreeable or as an enum with at least
  one value, and then the type is \<open>bytes\<close>, or it is not a map type and is not declared
  both in the scope and at top level. A field of any other kind makes the generator emit
  the empty structure of its last branch. A scope is agreeable within \<open>n\<close> nested calls
  of \<open>__get_object\<close> when it is a dictionary whose fields dictionary holds fields of
  distinct names that are all agreeable within \<open>n - 1\<close>.
\<close>

definition agreeable_field ::
  "(ProtoFile \<Rightarrow> node \<Rightarrow> bool) \<Rightarrow> ProtoFile \<Rightarrow> (string \<times> node) list \<Rightarrow> MessageField \<Rightarrow> bool"
where
  "agreeable_field rec proto_file scope_dict f =
     (if get_default_value_for_field f \<noteq> PNone then True
      else if has_in_imports proto_file (field_type f) then
        \<not> is_map f \<and> \<not> dict_has scope_dict (field_type f) \<and>
        \<not> dict_has (proto_structure proto_file) (field_type f) \<and>
        (case get_import_package proto_file (field_type f) of
           Inl e \<Rightarrow> False
         | Inr pkg \<Rightarrow>
             (case get_import_package_as_structure proto_file (field_type f) of
                Inl e \<Rightarrow> False
              | Inr scope \<Rightarrow> rec pkg scope))
      else
        (is_base_type (field_type f) \<or>
           \<not> is_map f \<and>
           \<not> (dict_has scope_dict (field_type f) \<and>
              dict_has (proto_structure proto_file) (field_type f))) \<and>
        (case lookup_next_field proto_file scope_dict (field_type f) of
           Some (DictNode d) \<Rightarrow> rec proto_file (DictNode d)
         | Some (EnumNode e) \<Rightarrow> enum_field_values e \<noteq> []
         | Some (FieldNode g) \<Rightarrow> False
         | None \<Rightarrow> False))"

primrec agreeable :: "nat \<Rightarrow> ProtoFile \<Rightarrow> node \<Rightarrow> bool" where
  "agreeable 0 = (\<lambda>proto_file scope. False)"
| "agreeable (Suc n) = (\<lambda>proto_file scope.
     case scope of
       DictNode scope_dict \<Rightarrow>
         (case map_of scope_dict FIELDS_KEY of
            Some (DictNode proto_fields) \<Rightarrow>
              distinct (map fst proto_fields) \<and>
              list_all (\<lambda>item. case snd item of
                           FieldNode f \<Rightarrow> agreeable_field (agreeable n) proto_file scope_dict f
                         | _ \<Rightarrow> False) proto_fields
          | _ \<Rightarrow> False)
     | _ \<Rightarrow> False)"

definition agreeable_root :: "nat \<Rightarrow> ProtoFile \<Rightarrow> string \<Rightarrow> bool" where
  "agreeable_root n proto_file root_field_name =
     (case map_of (proto_structure proto_file) root_field_name of
        None \<Rightarrow> False
      | Some scope \<Rightarrow> agreeable n proto_file scope)"

section \<open>Example schemas\<close>

text \<open>
  The scenario schema of the specification, one statement per line as the parser reads
  it, and the model the parser builds from it.
\<close>

definition scenario_lines :: "string list" where
  "scenario_lines = [''message M {'', ''  string name = 1; // required'',
     ''  repeated int32 tags = 2;'', ''}'']"

definition scenario_fs :: "string \<Rightarrow> string list option" where
  "scenario_fs f = (if f = ''scenario.proto'' then Some scenario_lines else None)"

definition scenario_fields :: node where
  "scenario_fields = DictNode
     [(''name'', FieldNode (MessageField ''string'' False True)),
      (''tags'', FieldNode (MessageField ''int32'' True False))]"

definition scenario_schema :: ProtoFile where
  "scenario_schema = ProtoFile None None [] [(''M'', DictNode [(FIELDS_KEY, scenario_fields)])]"

text \<open>A message with a line that is not a field declaration: it has no index.\<close>

definition unmatched_fs :: "string \<Rightarrow> string list option" where
  "unmatched_fs f = (if f = ''unmatched.proto''
     then Some [''message M {'', ''  string name;'', ''}''] else None)"

text \<open>
  An enum whose value is named by the letter U+00E9, followed by a line that holds only
  the character U+001C.
\<close>

definition latin_fs :: "string \<Rightarrow> string list option" where
  "latin_fs f = (if f = ''latin.proto''
     then Some [''enum E {'', [CHR 0xE9] @ '' = 1;'', [CHR 0x1C], ''}''] else None)"

text \<open>An enum with a \<open>reserved\<close> line.\<close>

definition reserved_fs :: "string \<Rightarrow> string list option" where
  "reserved_fs f = (if f = ''reserved.proto''
     then Some [''enum E {'', ''  A = 0;'', ''  reserved 2;'', ''}''] else None)"

text \<open>A message with a map whose values are a message of the same file.\<close>

definition local_map_fs :: "string \<Rightarrow> string list option" where
  "local_map_fs f = (if f = ''local_map.proto''
     then Some [''message Foo {'', ''}'', ''message M {'', ''  map<string, Foo> m = 1;'', ''}'']
     else None)"

definition local_map_schema :: ProtoFile where
  "local_map_schema = ProtoFile None None []
     [(''Foo'', DictNode [(FIELDS_KEY, DictNode [])]),
      (''M'', DictNode [(FIELDS_KEY, DictNode
         [(''m'', FieldNode (MessageField ''map<string, Foo>'' False False))])])]"

text \<open>
  A name declared twice: \<open>T\<close> is a top-level enum and also a message nested in \<open>M\<close>.
\<close>

definition clash_fs :: "string \<Rightarrow> string list option" where
  "clash_fs f = (if f = ''clash.proto''
     then Some [''enum T {'', ''  A = 0;'', ''}'', ''message M {'', ''  message T {'', ''  }'',
                ''  T t = 1;'', ''}'']
     else None)"

definition clash_schema :: ProtoFile where
  "clash_schema = ProtoFile None None []
     [(''T'', EnumNode (EnumField ''T'' [''A''])),
      (''M'', DictNode
         [(FIELDS_KEY, DictNode [(''t'', FieldNode (MessageField ''T'' False False))]),
          (''T'', DictNode [(FIELDS_KEY, DictNode [])])])]"

text \<open>
  A message \<open>Outer\<close> with a field and a repeated field whose type is the message \<open>Inner\<close>.
\<close>

definition nested_fs :: "string \<Rightarrow> string list option" where
  "nested_fs f = (if f = ''nested.proto''
     then Some [''message Inner {'', ''  string a = 1;'', ''}'', ''message Outer {'',
                ''  Inner i = 1;'', ''  repeated Inner l = 2;'', ''}'']
     else None)"

definition inner_scope :: node where
  "inner_scope = DictNode
     [(FIELDS_KEY, DictNode [(''a'', FieldNode (MessageField ''string'' False False))])]"

definition outer_scope :: node where
  "outer_scope = DictNode
     [(FIELDS_KEY, DictNode [(''i'', FieldNode (MessageField ''Inner'' False False)),
                             (''l'', FieldNode (MessageField ''Inner'' True False))])]"

definition nested_schema :: ProtoFile where
  "nested_schema = ProtoFile None None [] [(''Inner'', inner_scope), (''Outer'', outer_scope)]"

text \<open>
  A document for \<open>Outer\<close> with an excess key at the top level, one inside the field \<open>i\<close>
  and one inside the element of the list \<open>l\<close>, and the document without these keys.
\<close>

definition nested_doc :: pyval where
  "nested_doc = PDict
     [(''i'', PDict [(''a'', PStr ''x''), (''zz'', PInt 1)]),
      (''top'', PBool True),
      (''l'', PList [PDict [(''zz'', PInt 2)]])]"


text \<open>A message with a field of an enum that declares no value.\<close>

definition empty_enum_fs :: "string \<Rightarrow> string list option" where
  "empty_enum_fs f = (if f = ''empty_enum.proto''
     then Some [''message M {'', ''  enum E {'', ''  }'', ''  E e = 1;'', ''}''] else None)"

definition empty_enum_schema :: ProtoFile where
  "empty_enum_schema = ProtoFile None None []
     [(''M'', DictNode
         [(FIELDS_KEY, DictNode [(''e'', FieldNode (MessageField ''E'' False False))]),
          (''E'', EnumNode (EnumField ''E'' []))])]"

text \<open>
  A schema with an import, a nested enum, a nested message, and scalar, repeated and
  required fields.
\<close>

definition rich_fs :: "string \<Rightarrow> string list option" where
  "rich_fs f =
     (if f = ''rich.proto'' then
        Some [''package app;'', ''import \"proto/core.proto\";'', '''',
              ''message M {'',
              ''  enum Color {'', ''    RED = 0;'', ''    GREEN = 1;'', ''  }'',
              ''  message Inner {'', ''    bool ok = 1; // required'', ''  }'',
              ''  Color color = 1;'',
              ''  repeated Inner inner = 2;'',
              ''  core.Icon icon = 3;'',
              ''  double ratio = 4; // required'',
              ''}'']
      else if f = ''proto/core.proto'' then
        Some [''package core;'', ''message Icon {'', ''  string url = 1;'', ''}'']
      else None)"

definition core_schema :: ProtoFile where
  "core_schema = ProtoFile None (Some ''core'') []
     [(''Icon'', DictNode [(FIELDS_KEY, DictNode
        [(''url'', FieldNode (MessageField ''string'' False False))])])]"

definition rich_schema :: ProtoFile where
  "rich_schema = ProtoFile None (Some ''app'') [(Some ''core'', core_schema)]
     [(''M'', DictNode
        [(FIELDS_KEY, DictNode
           [(''color'', FieldNode (MessageField ''Color'' False False)),
            (''inner'', FieldNode (MessageField ''Inner'' True False)),
            (''icon'', FieldNode (MessageField ''core.Icon'' False False)),
            (''ratio'', FieldNode (MessageField ''double'' False True))]),
         (''Color'', EnumNode (EnumField ''Color'' [''RED'', ''GREEN''])),
         (''Inner'', DictNode [(FIELDS_KEY, DictNode
            [(''ok'', FieldNode (MessageField ''bool'' False True))])])])]"

text \<open>
  The prefix tests of \<open>__parse_line\<close> that come before its last branch.
\<close>

definition reaches_last_branch :: "string \<Rightarrow> bool" where
  "reaches_last_branch line =
     (\<not> startswith line ''option go_package '' \<and> \<not> startswith line ''package'' \<and>
      \<not> startswith line ''import '' \<and> \<not> startswith line ''message '' \<and>
      \<not> startswith line ''enum '' \<and> \<not> startswith line ''oneof '' \<and>
      \<not> startswith line ''}'' \<and> \<not> startswith line ''//'' \<and> line \<noteq> [])"

section \<open>Properties\<close>

subsection \<open>The recursion of the validator\<close>



lemma run_recursion_plan:
  "run_plan (recursion_plan pf sc f v) v new_path errs =
     (if is_repeated f then
        (case v of
           PList vs \<Rightarrow>
             (case validate_multiply_structures pf sc vs new_path (field_type f) errs of
                Inl e \<Rightarrow> Inl e
              | Inr (vs', errs1) \<Rightarrow> Inr (PList vs', errs1))
         | _ \<Rightarrow> Inl TypeError)
      else validate_structure pf sc v new_path (field_type f) errs)"
  by (simp add: run_plan_def recursion_plan_def split: pyval.splits)

lemma run_Report: "run_plan (Report ms) v new_path errs = Inr (v, add_errors new_path ms errs)"
  by (simp add: run_plan_def)

lemma run_Fail: "run_plan (Fail e) v new_path errs = Inl e"
  by (simp add: run_plan_def)

lemma run_message_plan:
  "run_plan (message_plan pf scoped f v) v new_path errs =
     (if truthy scoped then
        (case scoped of None \<Rightarrow> Inl TypeError
         | Some scope \<Rightarrow>
             (if is_repeated f then
                (case v of
                   PList vs \<Rightarrow>
                     (case validate_multiply_structures pf scope vs new_path (field_type f) errs of
                        Inl e \<Rightarrow> Inl e
                      | Inr (vs', errs1) \<Rightarrow> Inr (PList vs', errs1))
                 | _ \<Rightarrow> Inl TypeError)
              else validate_structure pf scope v new_path (field_type f) errs))
      else if has_in_imports pf (field_type f) then
        (case get_import_package pf (field_type f) of Inl e \<Rightarrow> Inl e
         | Inr new_proto_file \<Rightarrow>
             (case get_import_package_as_structure pf (field_type f) of Inl e \<Rightarrow> Inl e
              | Inr new_proto_scope \<Rightarrow>
                  (if is_repeated f then
                     (case v of
                        PList vs \<Rightarrow>
                          (case validate_multiply_structures new_proto_file new_proto_scope vs
                                  new_path (field_type f) errs of
                             Inl e \<Rightarrow> Inl e
                           | Inr (vs', errs1) \<Rightarrow> Inr (PList vs', errs1))
                      | _ \<Rightarrow> Inl TypeError)
                   else validate_structure new_proto_file new_proto_scope v new_path
                          (field_type f) errs)))
      else Inr (v, errs))"
  by (simp add: message_plan_def run_recursion_plan run_Report run_Fail add_errors_def
           split: option.splits sum.splits)

lemma run_plan_list_case:
  "run_plan (case v of PList vs \<Rightarrow> Report (g vs) | _ \<Rightarrow> Fail TypeError) v new_path errs =
     (case v of PList vs \<Rightarrow> Inr (v, add_errors new_path (g vs) errs) | _ \<Rightarrow> Inl TypeError)"
  by (cases v) (simp_all add: run_plan_def)

lemma run_AsMap:
  "run_plan (AsMap pf t) v new_path errs =
     (case validate_map_type pf t v new_path errs of Inl e \<Rightarrow> Inl e
      | Inr (v', errors, errs1) \<Rightarrow> Inr (v', add_errors new_path errors errs1))"
  by (simp add: run_plan_def)

lemma run_AsStructure:
  "run_plan (AsStructure pf sc nm) v new_path errs = validate_structure pf sc v new_path nm errs"
  by (simp add: run_plan_def)

lemma run_AsStructures:
  "run_plan (AsStructures pf sc nm vs) v new_path errs =
     (case validate_multiply_structures pf sc vs new_path nm errs of Inl e \<Rightarrow> Inl e
      | Inr (vs', errs1) \<Rightarrow> Inr (PList vs', errs1))"
  by (simp add: run_plan_def)

lemma add_errors_single: "add_errors p [e] errs = add_error p e errs"
  by (simp add: add_errors_def)

lemma validate_field_plan:
  "validate_field proto_file scope_dict proto_fields test_key test_value test_path errs =
     run_plan (field_plan proto_file scope_dict proto_fields test_key test_value) test_value
       (test_path @ '' > '' @ test_key) errs"
proof -
  define np where "np = test_path @ '' > '' @ test_key"
  show ?thesis
  proof (cases "subscript proto_fields test_key")
    case (Inl e)
    then show ?thesis
      by (simp add: validate_field.simps field_plan_def run_Fail)
  next
    case (Inr b)
    show ?thesis
    proof (cases b)
      case (DictNode d)
      with Inr show ?thesis by (simp add: validate_field.simps field_plan_def run_Fail)
    next
      case (EnumNode e)
      with Inr show ?thesis by (simp add: validate_field.simps field_plan_def run_Fail)
    next
      case (FieldNode f)
      show ?thesis
      proof (cases "lookup_scoped proto_file scope_dict (field_type f)")
        case None
        with Inr FieldNode show ?thesis
          unfolding validate_field.simps field_plan_def Let_def lookup_scoped_def[symmetric]
            np_def[symmetric]
          by (simp add: run_Fail run_Report run_AsMap run_message_plan run_plan_list_case
                add_errors_single)
      next
        case (Some sc)
        with Inr FieldNode show ?thesis
          unfolding validate_field.simps field_plan_def Let_def lookup_scoped_def[symmetric]
            np_def[symmetric]
          by (cases sc)
             (simp_all add: run_Fail run_Report run_AsMap run_message_plan run_plan_list_case
                add_errors_single)
      qed
    qed
  qed
qed



lemma list_case_plan_neq [simp]:
  "(case v of PList vs \<Rightarrow> Report (g vs) | _ \<Rightarrow> Fail e) \<noteq> AsStructures a b c d"
  "(case v of PList vs \<Rightarrow> Report (g vs) | _ \<Rightarrow> Fail e) \<noteq> AsStructure a b c"
  "(case v of PList vs \<Rightarrow> Report (g vs) | _ \<Rightarrow> Fail e) \<noteq> AsMap a c"
  by (cases v; simp)+






subsection \<open>The parser\<close>

lemma parse_lines_append:
  "parse_lines imp st0 pre = Inr st \<Longrightarrow>
     parse_lines imp st0 (pre @ ls) = parse_lines imp st ls"
  by (induction pre arbitrary: st0) (auto split: sum.splits)

lemma parse_line_last_branch:
  "reaches_last_branch (strip raw) \<Longrightarrow> parse_line imp st raw = parse_other st (strip raw)"
  by (simp add: parse_line_def reaches_last_branch_def Let_def)

text \<open>
  The character classes beyond ASCII: U+00E9 is a word character, so the line that
  declares it as an enum value matches, and U+001C is white space, so the line that holds
  nothing else is blank after stripping. The file parses.
\<close>

lemma latin_lines_parse:
  "new_ProtoFile 1 latin_fs ''latin.proto'' =
     Inr (ProtoFile None None [] [(''E'', EnumNode (EnumField ''E'' [[CHR 0xE9]]))])"
  by code_simp

text \<open>
  A \<open>reserved\<close> line inside an enum block matches neither the enum-value pattern nor the
  field pattern, and it is skipped: the file parses.
\<close>

lemma reserved_line_is_skipped:
  "re_match rx_enum_value ''reserved 2;'' = None \<and> re_match rx_field ''reserved 2;'' = None \<and>
   new_ProtoFile 1 reserved_fs ''reserved.proto'' =
     Inr (ProtoFile None None [] [(''E'', EnumNode (EnumField ''E'' [''A'']))])"
  by code_simp

text \<open>
  C5, as the claim states it, fails: the line \<open>string name;\<close> inside a message block
  matches neither the enum-value pattern nor the field pattern, and parsing fails there,
  but the failure is the \<open>AttributeError\<close> of \<open>None.groupdict()\<close>, not a
  \<open>SchemaSyntaxError\<close>.
\<close>

theorem unmatched_line_is_attribute_error:
  "re_match rx_enum_value ''string name;'' = None \<and> re_match rx_field ''string name;'' = None \<and>
   new_ProtoFile 1 unmatched_fs ''unmatched.proto'' = Inl AttributeError \<and>
   new_ProtoFile 1 unmatched_fs ''unmatched.proto'' \<noteq> Inl SchemaSyntaxError"
  by code_simp

text \<open>
  C5 (amended): a line that reaches the last branch of \<open>__parse_line\<close> and that, inside an
  enum block, does not start with \<open>reserved\<close> and does not match the enum-value pattern,
  or, outside an enum block and inside a message block, does not match the field pattern,
  makes the parse fail at that line, whatever follows: \<open>groupdict\<close> is called on \<open>None\<close>,
  which is an \<open>AttributeError\<close> (the source defines no error class of its own), and no
  model is returned.
\<close>

theorem unmatched_line_fails:
  assumes "parse_lines imp st0 pre = Inr st"
    and "reaches_last_branch (strip raw)"
    and "(st_is_enum_block st \<and> \<not> startswith (strip raw) ''reserved'' \<and>
            re_match rx_enum_value (strip raw) = None) \<or>
         (\<not> st_is_enum_block st \<and> st_message_block st \<noteq> None \<and>
            re_match rx_field (strip raw) = None)"
  shows "parse_lines imp st0 (pre @ raw # post) = Inl AttributeError"
proof -
  have "parse_other st (strip raw) = Inl AttributeError"
    using assms(3) by (auto simp: parse_other_def match_group_def)
  then have "parse_line imp st raw = Inl AttributeError"
    using assms(2) by (simp add: parse_line_last_branch)
  then have "parse_lines imp st (raw # post) = Inl AttributeError"
    by simp
  then show ?thesis
    using parse_lines_append [OF assms(1)] by simp
qed

theorem unmatched_line_fails_witness:
  "parse_lines (new_ProtoFile 0 scenario_fs) new_parser
     ([''message M {''] @ ''  string name;'' # [''}'']) = Inl AttributeError"
proof -
  have 1: "parse_lines (new_ProtoFile 0 scenario_fs) new_parser [''message M {''] =
      Inr (new_parser\<lparr>st_message_block := Some (DictNode [(''M'', new_scope)]),
                      st_message_names_path := [''M'']\<rparr>)"
    by code_simp
  have 2: "reaches_last_branch (strip ''  string name;'')"
    by code_simp
  have 3: "re_match rx_field (strip ''  string name;'') = None"
    by code_simp
  show ?thesis
    by (rule unmatched_line_fails [OF 1 2]) (simp add: 3 new_parser_def)
qed

subsection \<open>The generator on the scenario schema\<close>

text \<open>
  C4, as the claim states it, fails: the field \<open>tags\<close> is not marked required, so its
  integer is 50 and the generated document is not \<open>{name: "String", tags: [100]}\<close>.
\<close>

theorem scenario_example_is_not_100:
  "new_ProtoFile 1 scenario_fs ''scenario.proto'' = Inr scenario_schema \<and>
   as_object 1 scenario_schema ''M'' \<noteq>
     Inr (POrderedDict [(''name'', PStr ''String''), (''tags'', PList [PInt 100])])"
  by code_simp

text \<open>
  C4 (amended): the scenario schema parses to the model with the required string field
  \<open>name\<close> and the repeated, not required, \<open>int32\<close> field \<open>tags\<close>, and generating an example
  for \<open>M\<close> yields exactly \<open>{name: "String", tags: [50]}\<close>, at any recursion limit that
  allows one call.
\<close>

theorem scenario_example:
  "new_ProtoFile (Suc k) scenario_fs ''scenario.proto'' = Inr scenario_schema \<and>
   as_object (Suc n) scenario_schema ''M'' =
     Inr (POrderedDict [(''name'', PStr ''String''), (''tags'', PList [PInt 50])])"
  by code_simp

subsection \<open>The loop of the generator\<close>

lemma map_of_dict_set: "map_of (dict_set d k v) k' = (if k' = k then Some v else map_of d k')"
  by (induction d) auto

lemma dict_set_twice: "dict_set (dict_set d k v) k w = dict_set d k w"
  by (induction d) auto

lemma dict_set_new: "k \<notin> set (map fst d) \<Longrightarrow> dict_set d k v = d @ [(k, v)]"
  by (induction d) auto

lemma dict_get_set: "dict_get_or_none (dict_set d k v) k = v"
  by (simp add: dict_get_or_none_def map_of_dict_set)

lemma get_object_fields_Cons:
  "get_object_fields n pf sf (item # rest) result =
     (case snd item of
        DictNode d \<Rightarrow> Inl AttributeError
      | EnumNode e \<Rightarrow> Inl AttributeError
      | FieldNode field \<Rightarrow>
          (case field_value n pf sf field of
             Inl e \<Rightarrow> Inl e
           | Inr v \<Rightarrow> get_object_fields n pf sf rest (dict_set result (fst item) (wrapped field v))))"
proof (cases "snd item")
  case (FieldNode field)
  show ?thesis
    unfolding get_object_fields.simps field_value_def lookup_next_field_def FieldNode
    by (simp add: Let_def dict_set_twice dict_get_set wrapped_def split: sum.splits)
qed simp_all

lemma get_object_fields_exact:
  assumes "get_object_fields n pf sf items result = Inr doc"
    and "distinct (map fst items)"
    and "set (map fst items) \<inter> set (map fst result) = {}"
  shows "\<exists>vals. doc = POrderedDict (result @ vals) \<and>
           list_all2 (\<lambda>item p. fst p = fst item \<and>
              (\<exists>f v. snd item = FieldNode f \<and> field_value n pf sf f = Inr v \<and>
                     snd p = wrapped f v)) items vals"
  using assms
proof (induction items arbitrary: result)
  case Nil
  then show ?case by simp
next
  case (Cons item rest)
  from Cons.prems(1) obtain f v
    where f: "snd item = FieldNode f" and v: "field_value n pf sf f = Inr v"
      and r: "get_object_fields n pf sf rest (dict_set result (fst item) (wrapped f v)) = Inr doc"
    by (auto simp: get_object_fields_Cons simp del: get_object_fields.simps
             split: node.splits sum.splits)
  have new: "dict_set result (fst item) (wrapped f v) = result @ [(fst item, wrapped f v)]"
    using Cons.prems(3) by (intro dict_set_new) auto
  have "distinct (map fst rest)"
    using Cons.prems(2) by simp
  moreover have "set (map fst rest) \<inter> set (map fst (result @ [(fst item, wrapped f v)])) = {}"
    using Cons.prems(2,3) by auto
  ultimately obtain vals
    where d: "doc = POrderedDict ((result @ [(fst item, wrapped f v)]) @ vals)"
      and a: "list_all2 (\<lambda>item p. fst p = fst item \<and>
              (\<exists>f v. snd item = FieldNode f \<and> field_value n pf sf f = Inr v \<and>
                     snd p = wrapped f v)) rest vals"
    using Cons.IH [of "result @ [(fst item, wrapped f v)]"] r new by auto
  show ?case
    using d a f v by (intro exI [of _ "(fst item, wrapped f v) # vals"]) simp
qed

lemma get_object_exact:
  assumes "get_object (Suc n) pf (DictNode sf) = Inr doc"
    and "map_of sf FIELDS_KEY = Some (DictNode pfs)"
    and "distinct (map fst pfs)"
  shows "\<exists>vals. doc = POrderedDict vals \<and>
           list_all2 (\<lambda>item p. fst p = fst item \<and>
              (\<exists>f v. snd item = FieldNode f \<and> field_value n pf sf f = Inr v \<and>
                     snd p = wrapped f v)) pfs vals"
  using get_object_fields_exact [of n pf sf pfs "[]" doc] assms by simp




subsection \<open>The validator\<close>

text \<open>
  C8: whenever \<open>validate_json\<close> returns, its flag is true exactly when the list of
  diagnostics it returns is not empty.
\<close>

theorem validate_json_flag_iff_errors:
  "validate_json proto_file root_field_name test_data = Inr (flag, errs, test_data') \<Longrightarrow>
     flag = (errs \<noteq> [])"
  by (auto simp: validate_json_def split: option.splits sum.splits)

theorem validate_json_flag_iff_errors_witness:
  "validate_json scenario_schema ''M'' (PDict [(''tags'', PList [PInt 100])]) =
     Inr (True, [(''M'', Required ''name'' ''string'')], PDict [(''tags'', PList [PInt 100])]) \<and>
   True = ([(''M'', Required ''name'' ''string'')] \<noteq> [])"
proof -
  have h: "validate_json scenario_schema ''M'' (PDict [(''tags'', PList [PInt 100])]) =
     Inr (True, [(''M'', Required ''name'' ''string'')], PDict [(''tags'', PList [PInt 100])])"
    by code_simp
  from validate_json_flag_iff_errors [OF h] h show ?thesis by simp
qed

subsection \<open>What a successful call of the validator returns\<close>




subsection \<open>The validator only deletes keys\<close>









subsection \<open>What the validator leaves is the restricted document\<close>



lemma restricted_fields_keys:
  "restricted_fields pf sd pfs d' d \<Longrightarrow> map fst d' = map fst d"
  by (induction d arbitrary: d') (auto split: list.splits)

text \<open>
  The example documents: the parser builds the nested schema from its lines, and a
  document from which only the excess key of the top level is removed is not the
  restricted document, nor is one that lost a declared key of a nested message.
\<close>

lemma nested_schema_parses: "new_ProtoFile 1 nested_fs ''nested.proto'' = Inr nested_schema"
  by code_simp

lemma shallow_strip_is_not_restricted:
  "\<not> restricted nested_schema outer_scope
       (PDict [(''i'', PDict [(''a'', PStr ''x''), (''zz'', PInt 1)]),
               (''l'', PList [PDict [(''zz'', PInt 2)]])]) nested_doc \<and>
   \<not> restricted nested_schema outer_scope
       (PDict [(''i'', PDict []), (''l'', PList [PDict []])]) nested_doc"
  by code_simp



subsection \<open>Validating a second time\<close>



lemma excess_free_append [simp]: "excess_free (xs @ ys) \<longleftrightarrow> excess_free xs \<and> excess_free ys"
  by (simp add: excess_free_def)

lemma excess_free_Nil [simp]: "excess_free []"
  by (simp add: excess_free_def)







lemma recursion_plan_not_Report [simp]: "recursion_plan pf sc f v \<noteq> Report ms"
  by (simp add: recursion_plan_def split: pyval.splits)

lemma recursion_plan_not_AsMap [simp]: "recursion_plan pf sc f v \<noteq> AsMap pf' t"
  by (simp add: recursion_plan_def split: pyval.splits)


lemma message_plan_not_AsMap [simp]: "message_plan pf scoped f v \<noteq> AsMap pf' t"
  by (auto simp: message_plan_def split: if_splits option.splits sum.splits)








lemma no_excess_Nil [simp]: "no_excess []"
  by (simp add: no_excess_def)

lemma diags_Nil [simp]: "diags p [] = []"
  by (simp add: diags_def)













lemma dict_has_iff: "dict_has d k \<longleftrightarrow> k \<in> set (map fst d)"
  by (simp add: dict_has_def map_of_eq_None_iff)







subsection \<open>The diagnostics only grow\<close>






text \<open>
  C10: every key that \<open>__validate_and_del_excess\<close> leaves in the document is a key of the
  fields dictionary, so \<open>proto_fields[test_key]\<close> in the loop that follows does not raise
  \<open>KeyError\<close>.
\<close>

theorem kept_keys_are_declared:
  assumes "validate_and_del_excess proto_fields test_data = Inr (td1, errors)"
    and "item \<in> set td1"
  shows "\<exists>d. subscript proto_fields (fst item) = Inr d"
proof (cases proto_fields)
  case (DictNode fs)
  from assms have "fst item \<in> set (map fst fs)"
    by (auto simp: validate_and_del_excess_def foldl_dict_del DictNode Let_def
             split: if_splits)
  then have "map_of fs (fst item) \<noteq> None"
    by (simp add: map_of_eq_None_iff)
  then show ?thesis
    by (auto simp: DictNode)
next
  case (EnumNode e)
  with assms show ?thesis
    by (auto simp: validate_and_del_excess_def split: if_splits)
next
  case (FieldNode f)
  with assms show ?thesis
    by (auto simp: validate_and_del_excess_def split: if_splits)
qed

theorem kept_keys_are_declared_witness:
  "validate_and_del_excess scenario_fields [(''name'', PStr ''String''), (''extra'', PBool True)] =
     Inr ([(''name'', PStr ''String'')], [Excess ''extra'']) \<and>
   (\<exists>d. subscript scenario_fields (fst (''name'', PStr ''String'')) = Inr d)"
proof -
  have h: "validate_and_del_excess scenario_fields
      [(''name'', PStr ''String''), (''extra'', PBool True)] =
     Inr ([(''name'', PStr ''String'')], [Excess ''extra''])"
    by code_simp
  have m: "(''name'', PStr ''String'') \<in> set [(''name'', PStr ''String'')]"
    by simp
  from kept_keys_are_declared [OF h m] h show ?thesis by simp
qed

subsection \<open>Validating the generated example\<close>

lemma plain_wrapped: "plain_dicts (wrapped f v) = wrapped f (plain_dicts v)"
  by (simp add: wrapped_def)

lemma default_value_plain:
  "plain_dicts (get_default_value_for_field f) = get_default_value_for_field f"
  by (simp add: get_default_value_for_field_def)

lemma default_value_base:
  "get_default_value_for_field f \<noteq> PNone \<Longrightarrow> is_base_type (field_type f)"
  by (auto simp: get_default_value_for_field_def is_base_type_def split: if_splits)

lemma default_value_valid:
  "validate_base_type (field_type f) (get_default_value_for_field f) = None"
  by (auto simp: get_default_value_for_field_def validate_base_type_def type_associations_def
        STRING_TYPES_def INT_TYPES_def FLOAT_TYPES_def BOOL_TYPES_def)

lemma no_default_bytes:
  "get_default_value_for_field f = PNone \<Longrightarrow> is_base_type (field_type f) \<Longrightarrow>
     field_type f = ''bytes''"
  by (auto simp: get_default_value_for_field_def is_base_type_def BYTES_TYPES_def
           split: if_splits)

lemma bytes_valid: "validate_base_type ''bytes'' v = None"
  by (simp add: validate_base_type_def type_associations_def
        STRING_TYPES_def INT_TYPES_def FLOAT_TYPES_def BOOL_TYPES_def)

lemma bytes_not_imported: "\<not> has_in_imports pf ''bytes''"
  by (simp add: has_in_imports_def split_dot_def)

lemma add_errors_None: "add_errors p [None] errs = errs"
  by (simp add: add_errors_def add_error_def)

lemma field_plan_base:
  assumes "subscript pfs k = Inr (FieldNode f)" and "is_base_type (field_type f)"
  shows "field_plan pf sd pfs k (wrapped f v) =
     Report (if is_repeated f then validate_multiply_base_types (field_type f) [v]
             else [validate_base_type (field_type f) v])"
  using assms by (simp add: field_plan_def wrapped_def)

lemma field_plan_enum:
  assumes "subscript pfs k = Inr (FieldNode f)" and "\<not> is_base_type (field_type f)"
    and "\<not> is_map f" and "lookup_scoped pf sd (field_type f) = Some (EnumNode e)"
  shows "field_plan pf sd pfs k (wrapped f v) =
     Report (if is_repeated f then validate_multiply_enum_types e [v]
             else [validate_enum_type e v])"
  using assms by (simp add: field_plan_def wrapped_def)

lemma field_plan_message:
  assumes "subscript pfs k = Inr (FieldNode f)" and "\<not> is_base_type (field_type f)"
    and "\<not> is_map f" and "lookup_scoped pf sd (field_type f) = Some (DictNode d)"
    and "d \<noteq> []"
  shows "field_plan pf sd pfs k (wrapped f v) =
     (if is_repeated f then AsStructures pf (DictNode d) (field_type f) [v]
      else AsStructure pf (DictNode d) (field_type f))"
  using assms by (simp add: field_plan_def message_plan_def recursion_plan_def wrapped_def)

lemma field_plan_import:
  assumes "subscript pfs k = Inr (FieldNode f)" and "\<not> is_base_type (field_type f)"
    and "\<not> is_map f" and "lookup_scoped pf sd (field_type f) = None"
    and "has_in_imports pf (field_type f)"
    and "get_import_package pf (field_type f) = Inr pkg"
    and "get_import_package_as_structure pf (field_type f) = Inr sc"
  shows "field_plan pf sd pfs k (wrapped f v) =
     (if is_repeated f then AsStructures pkg sc (field_type f) [v]
      else AsStructure pkg sc (field_type f))"
  using assms by (simp add: field_plan_def message_plan_def recursion_plan_def wrapped_def)

lemma run_structure_clean:
  assumes "\<And>path nm errs. validate_structure pf sc w path nm errs = Inr (w, errs)"
  shows "run_plan (if is_repeated f then AsStructures pf sc t [w] else AsStructure pf sc t)
           (wrapped f w) np errs = Inr (wrapped f w, errs)"
  by (simp add: run_AsStructure run_AsStructures wrapped_def assms)

lemma lookup_agree:
  "\<not> (dict_has sd t \<and> dict_has (proto_structure pf) t) \<Longrightarrow>
     lookup_scoped pf sd t = lookup_next_field pf sd t"
  by (auto simp: lookup_scoped_def lookup_next_field_def)

lemma import_object:
  assumes "get_import_package pf t = Inr pkg" and "get_import_package_as_structure pf t = Inr sc"
  shows "get_import_package_as_object n pf t = get_object n pkg sc"
  using assms
  by (auto simp: get_import_package_def get_import_package_as_structure_def
           split: sum.splits option.splits prod.splits)

lemma agreeable_nonempty: "agreeable n pf (DictNode d) \<Longrightarrow> d \<noteq> []"
  by (cases n) auto

text \<open>
  One field: when the scopes of nested calls generate documents that validate without a
  diagnostic, so does the value of an agreeable field.
\<close>

lemma agreeable_field_step:
  assumes IH: "\<And>pf sc. agreeable n pf sc \<Longrightarrow>
      \<exists>doc. get_object n pf sc = Inr doc \<and>
        (\<forall>path nm errs. validate_structure pf sc (plain_dicts doc) path nm errs =
           Inr (plain_dicts doc, errs))"
    and ag: "agreeable_field (agreeable n) pf sd f"
    and sub: "subscript pfs k = Inr (FieldNode f)"
  shows "\<exists>v. field_value n pf sd f = Inr v \<and>
      (\<forall>path errs. validate_field pf sd pfs k (plain_dicts (wrapped f v)) path errs =
         Inr (plain_dicts (wrapped f v), errs))"
proof (cases "get_default_value_for_field f \<noteq> PNone")
  case True
  have v: "field_value n pf sd f = Inr (get_default_value_for_field f)"
    using True by (simp add: field_value_def)
  have "validate_field pf sd pfs k (wrapped f (get_default_value_for_field f)) path errs =
      Inr (wrapped f (get_default_value_for_field f), errs)" for path errs
    unfolding validate_field_plan field_plan_base [OF sub default_value_base [OF True]]
    by (simp add: run_Report validate_multiply_base_types_def default_value_valid
          add_errors_None)
  with v show ?thesis
    by (simp add: plain_wrapped default_value_plain)
next
  case nd: False
  show ?thesis
  proof (cases "has_in_imports pf (field_type f)")
    case True
    with nd ag obtain pkg sc
      where nm: "\<not> is_map f" and ns: "\<not> dict_has sd (field_type f)"
        and nt: "\<not> dict_has (proto_structure pf) (field_type f)"
        and p: "get_import_package pf (field_type f) = Inr pkg"
        and s: "get_import_package_as_structure pf (field_type f) = Inr sc"
        and a: "agreeable n pkg sc"
      by (auto simp: agreeable_field_def split: sum.splits)
    from IH [OF a] obtain doc where g: "get_object n pkg sc = Inr doc"
      and val: "\<And>path nm errs. validate_structure pkg sc (plain_dicts doc) path nm errs =
           Inr (plain_dicts doc, errs)"
      by blast
    have v: "field_value n pf sd f = Inr doc"
      using nd True g
      by (simp add: field_value_def import_object [OF p s]
            del: get_import_package_as_object.simps)
    have nb: "\<not> is_base_type (field_type f)"
      using nd True no_default_bytes [of f] bytes_not_imported [of pf] by auto
    have ls: "lookup_scoped pf sd (field_type f) = None"
      using ns nt by (simp add: lookup_scoped_def)
    have "validate_field pf sd pfs k (wrapped f (plain_dicts doc)) path errs =
        Inr (wrapped f (plain_dicts doc), errs)" for path errs
      unfolding validate_field_plan field_plan_import [OF sub nb nm ls True p s]
      by (rule run_structure_clean) (rule val)
    with v show ?thesis
      by (simp add: plain_wrapped)
  next
    case ni: False
    from nd ni ag
    have c: "is_base_type (field_type f) \<or>
        \<not> is_map f \<and> \<not> (dict_has sd (field_type f) \<and> dict_has (proto_structure pf) (field_type f))"
      by (simp add: agreeable_field_def)
    from nd ni ag
    consider (msg) d where "lookup_next_field pf sd (field_type f) = Some (DictNode d)"
        "agreeable n pf (DictNode d)"
      | (enum) e where "lookup_next_field pf sd (field_type f) = Some (EnumNode e)"
        "enum_field_values e \<noteq> []"
      by (auto simp: agreeable_field_def split: option.splits node.splits)
    then obtain v where v: "field_value n pf sd f = Inr v"
      and clean: "\<not> is_base_type (field_type f) \<Longrightarrow>
        validate_field pf sd pfs k (wrapped f (plain_dicts v)) path errs =
          Inr (wrapped f (plain_dicts v), errs)" for path errs
    proof cases
      case (msg d)
      from IH [OF msg(2)] obtain doc where g: "get_object n pf (DictNode d) = Inr doc"
        and val: "\<And>path nm errs. validate_structure pf (DictNode d) (plain_dicts doc) path nm errs =
             Inr (plain_dicts doc, errs)"
        by blast
      have v: "field_value n pf sd f = Inr doc"
        using nd ni g msg(1) by (simp add: field_value_def)
      have "validate_field pf sd pfs k (wrapped f (plain_dicts doc)) path errs =
          Inr (wrapped f (plain_dicts doc), errs)"
        if nb: "\<not> is_base_type (field_type f)" for path errs
      proof -
        from c nb have nm: "\<not> is_map f"
          and ls: "lookup_scoped pf sd (field_type f) = Some (DictNode d)"
          using lookup_agree [of sd "field_type f" pf] msg(1) by auto
        show ?thesis
          unfolding validate_field_plan
            field_plan_message [OF sub nb nm ls agreeable_nonempty [OF msg(2)]]
          by (rule run_structure_clean) (rule val)
      qed
      with v that show ?thesis by blast
    next
      case (enum e)
      then obtain x xs where xs: "enum_field_values e = x # xs"
        by (cases "enum_field_values e") auto
      have v: "field_value n pf sd f = Inr (PStr x)"
        using nd ni enum(1) xs by (simp add: field_value_def get_default_value_for_enum_def)
      have "validate_field pf sd pfs k (wrapped f (plain_dicts (PStr x))) path errs =
          Inr (wrapped f (plain_dicts (PStr x)), errs)"
        if nb: "\<not> is_base_type (field_type f)" for path errs
      proof -
        from c nb have nm: "\<not> is_map f"
          and ls: "lookup_scoped pf sd (field_type f) = Some (EnumNode e)"
          using lookup_agree [of sd "field_type f" pf] enum(1) by auto
        show ?thesis
          unfolding validate_field_plan field_plan_enum [OF sub nb nm ls]
          by (simp add: run_Report validate_multiply_enum_types_def validate_enum_type_def xs
                add_errors_None)
      qed
      with v that show ?thesis by blast
    qed
    have "validate_field pf sd pfs k (wrapped f (plain_dicts v)) path errs =
        Inr (wrapped f (plain_dicts v), errs)" for path errs
    proof (cases "is_base_type (field_type f)")
      case True
      from nd have "get_default_value_for_field f = PNone" by simp
      then have b: "field_type f = ''bytes''" using True by (rule no_default_bytes)
      show ?thesis
        unfolding validate_field_plan field_plan_base [OF sub True]
        by (simp add: run_Report validate_multiply_base_types_def b bytes_valid add_errors_None)
    next
      case False
      then show ?thesis by (rule clean)
    qed
    with v show ?thesis
      by (simp add: plain_wrapped)
  qed
qed

lemma get_object_fields_total:
  "list_all (\<lambda>item. \<exists>f v. snd item = FieldNode f \<and> field_value n pf sf f = Inr v) items \<Longrightarrow>
     \<exists>doc. get_object_fields n pf sf items result = Inr doc"
proof (induction items arbitrary: result)
  case Nil
  show ?case by simp
next
  case (Cons item rest)
  then obtain f v where "snd item = FieldNode f" "field_value n pf sf f = Inr v"
    by auto
  with Cons show ?case
    by (simp add: get_object_fields_Cons del: get_object_fields.simps)
qed

lemma del_excess_declared_keys:
  "set (map fst td) \<subseteq> set (map fst pfs) \<Longrightarrow>
     validate_and_del_excess (DictNode pfs) td = Inr (td, [])"
proof -
  assume "set (map fst td) \<subseteq> set (map fst pfs)"
  then have "filter (\<lambda>k. k \<notin> set (map fst pfs)) (map fst td) = []"
    by (auto simp: filter_empty_conv)
  then show ?thesis
    by (simp add: validate_and_del_excess_def)
qed

lemma required_loop_present:
  "list_all (\<lambda>item. \<exists>f. snd item = FieldNode f) items \<Longrightarrow>
   set (map fst items) \<subseteq> set (map fst td) \<Longrightarrow> validate_required_loop items td = Inr []"
proof (induction items)
  case Nil
  show ?case by simp
next
  case (Cons item rest)
  from Cons.prems(1) obtain f where f: "snd item = FieldNode f"
    by auto
  have h: "dict_has td (fst item)"
    using Cons.prems(2) by (simp add: dict_has_iff)
  have "validate_required_loop rest td = Inr []"
    using Cons.prems by (intro Cons.IH) simp_all
  then show ?case
    by (simp add: f h)
qed

lemma validate_fields_clean:
  "(\<And>item path errs. item \<in> set td \<Longrightarrow>
       validate_field pf sd pfs (fst item) (snd item) path errs = Inr (snd item, errs)) \<Longrightarrow>
     validate_fields pf sd pfs td path errs = Inr (td, errs)"
  by (induction td) auto

lemma list_all2_right_member:
  "list_all2 R xs ys \<Longrightarrow> y \<in> set ys \<Longrightarrow> \<exists>x\<in>set xs. R x y"
  by (induction xs ys rule: list_all2_induct) auto

lemma map_of_distinct_member:
  "distinct (map fst xs) \<Longrightarrow> x \<in> set xs \<Longrightarrow> map_of xs (fst x) = Some (snd x)"
  by (cases x) simp

text \<open>
  The generator returns a document for an agreeable scope, and the validator finds
  nothing to report in that document with plain dictionaries, and leaves it as it is.
\<close>

lemma agreeable_scope:
  "agreeable n pf sc \<Longrightarrow>
     \<exists>doc. get_object n pf sc = Inr doc \<and>
       (\<forall>path nm errs. validate_structure pf sc (plain_dicts doc) path nm errs =
          Inr (plain_dicts doc, errs))"
proof (induction n arbitrary: pf sc)
  case 0
  then show ?case by simp
next
  case (Suc n)
  from Suc.prems obtain sd pfs where sc: "sc = DictNode sd"
    and fk: "map_of sd FIELDS_KEY = Some (DictNode pfs)"
    and dist: "distinct (map fst pfs)"
    and all: "list_all (\<lambda>item. case snd item of
                 FieldNode f \<Rightarrow> agreeable_field (agreeable n) pf sd f | _ \<Rightarrow> False) pfs"
    by (auto split: node.splits option.splits)
  have step: "\<exists>f v. snd item = FieldNode f \<and> field_value n pf sd f = Inr v \<and>
      (\<forall>path errs. validate_field pf sd (DictNode pfs) (fst item)
          (plain_dicts (wrapped f v)) path errs = Inr (plain_dicts (wrapped f v), errs))"
    if m: "item \<in> set pfs" for item
  proof -
    from all m have "case snd item of
        FieldNode f \<Rightarrow> agreeable_field (agreeable n) pf sd f | _ \<Rightarrow> False"
      by (simp add: list_all_iff)
    then obtain f where f: "snd item = FieldNode f"
      and ag: "agreeable_field (agreeable n) pf sd f"
      by (cases "snd item") auto
    have "subscript (DictNode pfs) (fst item) = Inr (FieldNode f)"
      using map_of_distinct_member [OF dist m] f by simp
    from agreeable_field_step [OF Suc.IH ag this] f show ?thesis
      by blast
  qed
  have "list_all (\<lambda>item. \<exists>f v. snd item = FieldNode f \<and> field_value n pf sd f = Inr v) pfs"
    unfolding list_all_iff
  proof
    fix item assume "item \<in> set pfs"
    from step [OF this] show "\<exists>f v. snd item = FieldNode f \<and> field_value n pf sd f = Inr v"
      by blast
  qed
  from get_object_fields_total [OF this, of "[]"] obtain doc
    where g: "get_object_fields n pf sd pfs [] = Inr doc" ..
  then have go: "get_object (Suc n) pf sc = Inr doc"
    by (simp add: sc fk)
  from get_object_exact [OF go [unfolded sc] fk dist] obtain vals
    where doc: "doc = POrderedDict vals"
      and rel: "list_all2 (\<lambda>item p. fst p = fst item \<and>
              (\<exists>f v. snd item = FieldNode f \<and> field_value n pf sd f = Inr v \<and>
                     snd p = wrapped f v)) pfs vals"
    by blast
  define td where "td = map (map_prod id plain_dicts) vals"
  have keys: "map fst td = map fst pfs"
    using rel unfolding td_def by (induction pfs vals rule: list_all2_induct) auto
  have item_clean: "validate_field pf sd (DictNode pfs) (fst item) (snd item) path errs =
      Inr (snd item, errs)" if m: "item \<in> set td" for item path errs
  proof -
    from m obtain p where p: "p \<in> set vals" and item: "item = (fst p, plain_dicts (snd p))"
      unfolding td_def by (auto simp: map_prod_def split: prod.splits)
    from list_all2_right_member [OF rel p] obtain it where it: "it \<in> set pfs"
      and k: "fst p = fst it"
      and w: "\<exists>f v. snd it = FieldNode f \<and> field_value n pf sd f = Inr v \<and> snd p = wrapped f v"
      by blast
    from w obtain f v where f: "snd it = FieldNode f" and v: "field_value n pf sd f = Inr v"
      and sp: "snd p = wrapped f v"
      by blast
    from step [OF it] f v
    have "validate_field pf sd (DictNode pfs) (fst it) (plain_dicts (wrapped f v)) path errs =
        Inr (plain_dicts (wrapped f v), errs)"
      by auto
    then show ?thesis
      by (simp add: item k sp)
  qed
  have ex: "validate_and_del_excess (DictNode pfs) td = Inr (td, [])"
    by (rule del_excess_declared_keys) (simp add: keys)
  have "list_all (\<lambda>item. \<exists>f. snd item = FieldNode f) pfs"
    unfolding list_all_iff
  proof
    fix item assume "item \<in> set pfs"
    from step [OF this] show "\<exists>f. snd item = FieldNode f"
      by blast
  qed
  then have "validate_required_loop pfs td = Inr []"
    by (rule required_loop_present) (simp add: keys)
  then have req: "validate_required (DictNode pfs) td = Inr []"
    by (simp add: validate_required_def)
  have pd: "plain_dicts doc = PDict td"
    by (simp add: doc td_def)
  have "validate_structure pf sc (PDict td) path nm errs = Inr (PDict td, errs)"
    for path nm errs
  proof -
    have "validate_fields pf sd (DictNode pfs) td path errs = Inr (td, errs)"
      by (rule validate_fields_clean) (rule item_clean)
    then show ?thesis
      by (simp add: validate_structure.simps sc fk ex req add_errors_def)
  qed
  with go pd show ?case by simp
qed

text \<open>
  The example schemas: the parser builds the rich schema and the schema with the empty
  enum from their lines, and the rich schema is agreeable.
\<close>

lemma rich_schema_parses: "new_ProtoFile 2 rich_fs ''rich.proto'' = Inr rich_schema"
  by code_simp

lemma rich_example:
  "as_object 2 rich_schema ''M'' = Inr (POrderedDict
     [(''color'', PStr ''RED''), (''inner'', PList [POrderedDict [(''ok'', PBool True)]]),
      (''icon'', POrderedDict [(''url'', PStr ''Optional string'')]),
      (''ratio'', PFloat (201 / 2))])"
  by code_simp

text \<open>
  C1, as the claim states it, fails. For a message with a field of an enum that declares
  no value, the generator takes the enum branch, not the branch that emits an empty
  structure, and emits the placeholder \<open>Optional enum\<close>. The validator rejects the
  document as the generator returns it, because an \<open>OrderedDict\<close> is not of type
  \<open>dict\<close>, and it rejects the same document with plain dictionaries, because the
  placeholder is not a value of the enum.
\<close>

theorem empty_enum_example_is_rejected:
  "new_ProtoFile 1 empty_enum_fs ''empty_enum.proto'' = Inr empty_enum_schema \<and>
   as_object 2 empty_enum_schema ''M'' = Inr (POrderedDict [(''e'', PStr ''Optional enum'')]) \<and>
   validate_json empty_enum_schema ''M'' (POrderedDict [(''e'', PStr ''Optional enum'')]) =
     Inr (True,
          [(''M'', ExpectedStructure ''M'' ''OrderedDict''
                     (POrderedDict [(''e'', PStr ''Optional enum'')]))],
          POrderedDict [(''e'', PStr ''Optional enum'')]) \<and>
   validate_json empty_enum_schema ''M''
       (plain_dicts (POrderedDict [(''e'', PStr ''Optional enum'')])) =
     Inr (True, [(''M > e'', UnknownValue (PStr ''Optional enum'') ''E'')],
          PDict [(''e'', PStr ''Optional enum'')])"
  by code_simp

text \<open>
  C1 (amended): for a root whose scope is agreeable within the recursion limit, the
  generator returns a document, and validating that document with plain dictionaries
  against the same schema and root yields no diagnostic and a false flag, and leaves the
  document as it is.
\<close>

theorem generated_example_validates:
  assumes "agreeable_root n proto_file root_field_name"
  shows "\<exists>doc. as_object n proto_file root_field_name = Inr doc \<and>
    validate_json proto_file root_field_name (plain_dicts doc) =
      Inr (False, [], plain_dicts doc)"
proof -
  from assms obtain sc where sc: "map_of (proto_structure proto_file) root_field_name = Some sc"
    and a: "agreeable n proto_file sc"
    by (auto simp: agreeable_root_def split: option.splits)
  from agreeable_scope [OF a] obtain doc where g: "get_object n proto_file sc = Inr doc"
    and v: "\<And>path nm errs. validate_structure proto_file sc (plain_dicts doc) path nm errs =
          Inr (plain_dicts doc, errs)"
    by blast
  have "as_object n proto_file root_field_name = Inr doc"
    using sc g by simp
  moreover have "validate_json proto_file root_field_name (plain_dicts doc) =
      Inr (False, [], plain_dicts doc)"
    using sc by (simp add: validate_json_def v)
  ultimately show ?thesis by blast
qed

theorem generated_example_validates_witness:
  "agreeable_root 2 rich_schema ''M'' \<and>
   (\<exists>doc. as_object 2 rich_schema ''M'' = Inr doc \<and>
      validate_json rich_schema ''M'' (plain_dicts doc) = Inr (False, [], plain_dicts doc))"
proof -
  have h: "agreeable_root 2 rich_schema ''M''"
    by code_simp
  from generated_example_validates [OF h] h show ?thesis by blast
qed

text \<open>
  C3: the claim does not hold of the code. For a map whose value type is a message of the
  same file, \<open>__validate_map_type\<close> calls \<open>get_import_package\<close>, which unpacks
  \<open>'Foo'.split('.', 1)\<close> into two names: the \<open>ValueError\<close> ends the whole
  \<open>validate_json\<close> call.
\<close>

theorem local_map_value_aborts:
  "new_ProtoFile 1 local_map_fs ''local_map.proto'' = Inr local_map_schema \<and>
   validate_json local_map_schema ''M'' (PDict [(''m'', PDict [(''k'', PDict [])])]) =
     Inl ValueError"
  by code_simp

text \<open>
  C2: the claim does not hold of the code. With \<open>T\<close> both a message nested in \<open>M\<close> and a
  top-level enum, the generator takes the nested message for the field of type \<open>T\<close> (it
  emits a structure), and the validator takes the top-level enum (it rejects that
  structure and accepts the enum value \<open>A\<close>).
\<close>

theorem clash_resolves_differently:
  "new_ProtoFile 1 clash_fs ''clash.proto'' = Inr clash_schema \<and>
   as_object 2 clash_schema ''M'' = Inr (POrderedDict [(''t'', POrderedDict [])]) \<and>
   validate_json clash_schema ''M'' (PDict [(''t'', PDict [])]) =
     Inr (True, [(''M > t'', UnknownValue (PDict []) ''T'')], PDict [(''t'', PDict [])]) \<and>
   validate_json clash_schema ''M'' (PDict [(''t'', PStr ''A'')]) =
     Inr (False, [], PDict [(''t'', PStr ''A'')])"
  by code_simp

end
